theory Spec2Isabelle
  imports Complex_Main "HOL-Library.Numeral_Type"
begin

section \<open>Arrays of fixed shape\<close>

text \<open>
  The program works on numpy arrays of three fixed shapes: (6, 6) matrices in the
  normalized Voigt (Mandel) notation, (3, 3) matrices and (3, 3, 3, 3) tensors. An array
  is modelled as a function from its indices, which range over the numeral types
  \<open>6\<close> and \<open>3\<close>, so that \<open>T 0 0 1 1\<close> is the entry \<^verbatim>\<open>T[0, 0, 1, 1]\<close> of the
  source. Entries are real numbers: the embedding idealises the 64-bit floats of numpy
  to exact arithmetic, and says nothing about rounding or nan. The one effect of the
  floats that it keeps is the \<^verbatim>\<open>OverflowError\<close> of Python's power operator, since that
  decides whether a call returns.
\<close>

type_synonym mat66 = "6 \<Rightarrow> 6 \<Rightarrow> real"
type_synonym mat33 = "3 \<Rightarrow> 3 \<Rightarrow> real"
type_synonym tensor3333 = "3 \<Rightarrow> 3 \<Rightarrow> 3 \<Rightarrow> 3 \<Rightarrow> real"

definition eye6 :: mat66 where
  \<comment> \<open>\<^verbatim>\<open>np.eye(6)\<close>\<close>
  "eye6 = (\<lambda>i j. if i = j then 1 else 0)"

definition eye3 :: mat33 where
  \<comment> \<open>\<^verbatim>\<open>np.eye(3)\<close>\<close>
  "eye3 = (\<lambda>i j. if i = j then 1 else 0)"

definition zeros66 :: mat66 where
  \<comment> \<open>\<^verbatim>\<open>np.zeros((6, 6))\<close>\<close>
  "zeros66 = (\<lambda>i j. 0)"

definition zeros3333 :: tensor3333 where
  \<comment> \<open>\<^verbatim>\<open>np.zeros((3, 3, 3, 3))\<close>\<close>
  "zeros3333 = (\<lambda>i j k l. 0)"

definition madd :: "mat66 \<Rightarrow> mat66 \<Rightarrow> mat66" where
  \<comment> \<open>\<^verbatim>\<open>A + B\<close> on (6, 6) arrays\<close>
  "madd A B = (\<lambda>i j. A i j + B i j)"

definition msub :: "mat66 \<Rightarrow> mat66 \<Rightarrow> mat66" where
  \<comment> \<open>\<^verbatim>\<open>A - B\<close> on (6, 6) arrays\<close>
  "msub A B = (\<lambda>i j. A i j - B i j)"

definition smul :: "real \<Rightarrow> mat66 \<Rightarrow> mat66" where
  \<comment> \<open>\<^verbatim>\<open>c * A\<close>, a scalar times a (6, 6) array\<close>
  "smul c A = (\<lambda>i j. c * A i j)"

definition tadd :: "tensor3333 \<Rightarrow> tensor3333 \<Rightarrow> tensor3333" where
  \<comment> \<open>\<^verbatim>\<open>S + T\<close> on (3, 3, 3, 3) arrays\<close>
  "tadd S T = (\<lambda>i j k l. S i j k l + T i j k l)"

definition tsub :: "tensor3333 \<Rightarrow> tensor3333 \<Rightarrow> tensor3333" where
  \<comment> \<open>\<^verbatim>\<open>S - T\<close> on (3, 3, 3, 3) arrays\<close>
  "tsub S T = (\<lambda>i j k l. S i j k l - T i j k l)"

definition tscale :: "real \<Rightarrow> tensor3333 \<Rightarrow> tensor3333" where
  \<comment> \<open>\<^verbatim>\<open>c * T\<close>, a scalar times a (3, 3, 3, 3) array\<close>
  "tscale c T = (\<lambda>i j k l. c * T i j k l)"

definition set4 :: "tensor3333 \<Rightarrow> 3 \<Rightarrow> 3 \<Rightarrow> 3 \<Rightarrow> 3 \<Rightarrow> real \<Rightarrow> tensor3333" where
  \<comment> \<open>the array after the assignment \<^verbatim>\<open>S[i, j, k, l] = x\<close>\<close>
  "set4 S i j k l x =
     (\<lambda>i' j' k' l'. if i' = i \<and> j' = j \<and> k' = k \<and> l' = l then x else S i' j' k' l')"

subsection \<open>The einsum patterns of the source\<close>

text \<open>
  Each \<^verbatim>\<open>np.einsum\<close> call of the source has no repeated subscript, so it is an outer
  product written to the output positions that the pattern names. The bound variables
  of each definition are in the order of the output subscripts.
\<close>

definition einsum_ij_kl_ijkl :: "mat33 \<Rightarrow> mat33 \<Rightarrow> tensor3333" where
  \<comment> \<open>\<^verbatim>\<open>np.einsum("ij,kl->ijkl", A, B)\<close>\<close>
  "einsum_ij_kl_ijkl A B = (\<lambda>i j k l. A i j * B k l)"

definition einsum_ik_lj_ijkl :: "mat33 \<Rightarrow> mat33 \<Rightarrow> tensor3333" where
  \<comment> \<open>\<^verbatim>\<open>np.einsum("ik,lj->ijkl", A, B)\<close>\<close>
  "einsum_ik_lj_ijkl A B = (\<lambda>i j k l. A i k * B l j)"

definition einsum_ik_lj_ijlk :: "mat33 \<Rightarrow> mat33 \<Rightarrow> tensor3333" where
  \<comment> \<open>\<^verbatim>\<open>np.einsum("ik,lj->ijlk", A, B)\<close>\<close>
  "einsum_ik_lj_ijlk A B = (\<lambda>i j l k. A i k * B l j)"

definition einsum_ik_lj_klij :: "mat33 \<Rightarrow> mat33 \<Rightarrow> tensor3333" where
  \<comment> \<open>\<^verbatim>\<open>np.einsum("ik,lj->klij", A, B)\<close>\<close>
  "einsum_ik_lj_klij A B = (\<lambda>k l i j. A i k * B l j)"

definition einsum_ijkl_jikl :: "tensor3333 \<Rightarrow> tensor3333" where
  \<comment> \<open>\<^verbatim>\<open>np.einsum("ijkl->jikl", T)\<close>\<close>
  "einsum_ijkl_jikl T = (\<lambda>j i k l. T i j k l)"

definition einsum_ijkl_ijlk :: "tensor3333 \<Rightarrow> tensor3333" where
  \<comment> \<open>\<^verbatim>\<open>np.einsum("ijkl->ijlk", T)\<close>\<close>
  "einsum_ijkl_ijlk T = (\<lambda>i j l k. T i j k l)"

definition einsum_ijkl_klij :: "tensor3333 \<Rightarrow> tensor3333" where
  \<comment> \<open>\<^verbatim>\<open>np.einsum("ijkl->klij", T)\<close>\<close>
  "einsum_ijkl_klij T = (\<lambda>k l i j. T i j k l)"

definition linalg_norm :: "tensor3333 \<Rightarrow> real" where
  \<comment> \<open>\<^verbatim>\<open>np.linalg.norm(T)\<close> with the default order: the root of the sum of all squared
      entries (Frobenius norm of the flattened array)\<close>
  "linalg_norm T = sqrt (\<Sum>i\<in>UNIV. \<Sum>j\<in>UNIV. \<Sum>k\<in>UNIV. \<Sum>l\<in>UNIV. (T i j k l)\<^sup>2)"

section \<open>The Tensor base class\<close>

text \<open>
  \<^verbatim>\<open>MoriTanaka\<close> inherits \<^verbatim>\<open>tensor_product\<close>, \<^verbatim>\<open>tensor2mandel\<close> and
  \<^verbatim>\<open>mandel2tensor\<close> from \<^verbatim>\<open>homopy.tensor.Tensor\<close>, whose module is not among the
  source files. The three are modelled from section 4.1 of the specification.
\<close>

definition tensor_product :: "mat66 \<Rightarrow> mat66 \<Rightarrow> mat66" where
  \<comment> \<open>Modelled from the spec: \<^verbatim>\<open>Tensor.tensor_product\<close> of the missing module
      \<^verbatim>\<open>homopy/tensor.py\<close>, "tensor double-contraction, i.e. Mandel matrix product".\<close>
  "tensor_product A B = (\<lambda>i k. \<Sum>j\<in>UNIV. A i j * B j k)"

definition mandel_pair :: "6 \<Rightarrow> 3 \<times> 3" where
  \<comment> \<open>Modelled from the spec: the index pairs in the ordering 11, 22, 33, 23, 13, 12 of
      the missing \<^verbatim>\<open>homopy/tensor.py\<close>, counted from 0.\<close>
  "mandel_pair \<alpha> =
     (if \<alpha> = 0 then (0, 0) else if \<alpha> = 1 then (1, 1) else if \<alpha> = 2 then (2, 2)
      else if \<alpha> = 3 then (1, 2) else if \<alpha> = 4 then (0, 2) else (0, 1))"

definition mandel_index :: "3 \<Rightarrow> 3 \<Rightarrow> 6" where
  \<comment> \<open>Modelled from the spec: the single index of an index pair, in either order of the
      pair (missing \<^verbatim>\<open>homopy/tensor.py\<close>).\<close>
  "mandel_index i j =
     (if i = j then (if i = 0 then 0 else if i = 1 then 1 else 2)
      else if i \<noteq> 0 \<and> j \<noteq> 0 then 3
      else if i \<noteq> 1 \<and> j \<noteq> 1 then 4
      else 5)"

definition mandel_weight :: "6 \<Rightarrow> real" where
  \<comment> \<open>Modelled from the spec: the normalization of the missing \<^verbatim>\<open>homopy/tensor.py\<close>:
      1 for a normal index, \<open>\<surd>2\<close> for a shear index, so that the shear-shear block is
      scaled by 2 and the normal-shear blocks by \<open>\<surd>2\<close>.\<close>
  "mandel_weight \<alpha> = (if \<alpha> = 0 \<or> \<alpha> = 1 \<or> \<alpha> = 2 then 1 else sqrt 2)"

definition tensor2mandel :: "tensor3333 \<Rightarrow> mat66" where
  \<comment> \<open>Modelled from the spec: \<^verbatim>\<open>Tensor.tensor2mandel\<close> of the missing
      \<^verbatim>\<open>homopy/tensor.py\<close> (\<open>fullToReduced\<close> of section 4.1). It reads one entry per pair
      of index pairs; entries that only a non-symmetric tensor holds are discarded.\<close>
  "tensor2mandel T =
     (\<lambda>\<alpha> \<beta>. mandel_weight \<alpha> * mandel_weight \<beta> *
        T (fst (mandel_pair \<alpha>)) (snd (mandel_pair \<alpha>)) (fst (mandel_pair \<beta>)) (snd (mandel_pair \<beta>)))"

definition mandel2tensor :: "mat66 \<Rightarrow> tensor3333" where
  \<comment> \<open>Modelled from the spec: \<^verbatim>\<open>Tensor.mandel2tensor\<close> of the missing
      \<^verbatim>\<open>homopy/tensor.py\<close> (\<open>reducedToFull\<close> of section 4.1): the inverse mapping, which
      undoes the same scaling.\<close>
  "mandel2tensor M =
     (\<lambda>i j k l. M (mandel_index i j) (mandel_index k l) /
        (mandel_weight (mandel_index i j) * mandel_weight (mandel_index k l)))"

section \<open>Matrix inversion\<close>

text \<open>
  \<^verbatim>\<open>np.linalg.inv\<close> is library code. In exact arithmetic it returns the inverse of a
  matrix that has one and raises \<^verbatim>\<open>LinAlgError\<close> for a singular matrix. It is modelled by
  Gauss-Jordan elimination on the pair of the matrix and the identity; \<open>None\<close> stands for
  the exception. The lemma \<open>linalg_inv_iff\<close> below shows that the result is the two-sided
  inverse exactly when there is one, whatever pivot is chosen.
\<close>

definition swap_rows :: "6 \<Rightarrow> 6 \<Rightarrow> mat66 \<Rightarrow> mat66" where
  "swap_rows r c A = (\<lambda>i. if i = r then A c else if i = c then A r else A i)"

definition scale_row :: "6 \<Rightarrow> real \<Rightarrow> mat66 \<Rightarrow> mat66" where
  "scale_row c s A = (\<lambda>i j. if i = c then s * A c j else A i j)"

definition sub_rows :: "6 \<Rightarrow> (6 \<Rightarrow> real) \<Rightarrow> mat66 \<Rightarrow> mat66" where
  \<comment> \<open>subtract \<open>f i\<close> times row \<open>c\<close> from every other row \<open>i\<close>\<close>
  "sub_rows c f A = (\<lambda>i j. if i = c then A c j else A i j - f i * A c j)"

fun gauss_jordan :: "6 list \<Rightarrow> mat66 \<Rightarrow> mat66 \<Rightarrow> mat66 option" where
  "gauss_jordan [] M P = Some P"
| "gauss_jordan (c # cs) M P =
     (case find (\<lambda>r. M r c \<noteq> 0) (c # cs) of
        None \<Rightarrow> None
      | Some r \<Rightarrow>
          (let M1 = swap_rows r c M; P1 = swap_rows r c P;
               p = M1 c c;
               M2 = scale_row c (1 / p) M1; P2 = scale_row c (1 / p) P1;
               f = (\<lambda>i. M2 i c)
           in gauss_jordan cs (sub_rows c f M2) (sub_rows c f P2)))"

definition linalg_inv :: "mat66 \<Rightarrow> mat66 option" where
  "linalg_inv M = gauss_jordan [0, 1, 2, 3, 4, 5] M eye6"

section \<open>The MoriTanaka class\<close>

datatype error = AssertionError | LinAlgError | ZeroDivisionError | OverflowError | TypeError

record material =
  stiffness66 :: mat66
  nu :: real

text \<open>
  The constructor takes \<^verbatim>\<open>fiber\<close>, \<^verbatim>\<open>v_frac\<close> and \<^verbatim>\<open>a_ratio\<close> and branches on
  \<^verbatim>\<open>type(fiber) == list\<close>: one material with a scalar volume fraction and aspect ratio,
  or three lists.
\<close>

datatype inclusions =
    Single material real real
  | Multi "material list" "real list" "real list"

text \<open>The attributes that each branch of the constructor sets.\<close>

datatype phase_data =
    SingleData (Cf: mat66) (v_frac: real) (a_ratio: real) (eshelby66: mat66)
  | MultiData (nr_constituents: nat) (A_f_alpha: "mat66 list") (pol_alpha: "mat66 list")
      (c_alpha: "real list") (c_f: real)

record MoriTanaka =
  matrix :: material
  Cm :: mat66
  phases :: phase_data
  effective_stiffness66 :: mat66
  effective_stiffness3333 :: tensor3333

subsection \<open>The Eshelby tensor\<close>

text \<open>
  \<^verbatim>\<open>_get_eshelby\<close> can raise in three ways before it reads the flag \<^verbatim>\<open>return_dim\<close>.
  Python's \<^verbatim>\<open>**\<close> on floats raises \<^verbatim>\<open>OverflowError\<close> when the result is above the
  largest float: first \<^verbatim>\<open>a ** 2\<close>, then \<^verbatim>\<open>(a2 - 1) ** (3 / 2)\<close>. A division by a zero
  float raises \<^verbatim>\<open>ZeroDivisionError\<close>: the divisors vanish exactly when \<open>a\<^sup>2 = 1\<close> or
  \<open>nu = 1\<close>. For \<open>a\<^sup>2 < 1\<close> the powers of the negative number \<^verbatim>\<open>a2 - 1\<close> are complex,
  so is \<^verbatim>\<open>g\<close>, and the first assignment of a complex number to the float array \<^verbatim>\<open>S\<close>
  raises \<^verbatim>\<open>TypeError\<close>; the quotient \<^verbatim>\<open>1 / (2 * (1 - nu))\<close> is evaluated before that
  assignment. For \<open>a < - 1\<close> nothing raises, but \<^verbatim>\<open>arccosh\<close> is nan: the embedding gives
  the entries no meaning there, and every statement below about the entries assumes
  \<open>1 < a\<close>.
\<close>

definition float_max :: real where
  \<comment> \<open>\<^verbatim>\<open>sys.float_info.max\<close>, the largest 64-bit float\<close>
  "float_max = (2 ^ 53 - 1) * 2 ^ 971"

definition eshelby_g :: "real \<Rightarrow> real" where
  \<comment> \<open>the local \<^verbatim>\<open>g\<close> of \<^verbatim>\<open>_get_eshelby\<close>\<close>
  "eshelby_g a =
     (let a2 = a\<^sup>2
      in a / (a2 - 1) powr (3 / 2) * (a * (a2 - 1) powr (1 / 2) - arcosh a))"

definition eshelby3333 :: "real \<Rightarrow> real \<Rightarrow> tensor3333" where
  \<comment> \<open>the array \<^verbatim>\<open>S\<close> that \<^verbatim>\<open>_get_eshelby\<close> fills, assignment by assignment\<close>
  "eshelby3333 \<nu> a =
     (let a2 = a\<^sup>2;
          g = eshelby_g a;
          S = zeros3333;
          S = set4 S 0 0 0 0
                (1 / (2 * (1 - \<nu>))
                 * (1 - 2 * \<nu> + (3 * a2 - 1) / (a2 - 1)
                    - (1 - 2 * \<nu> + 3 * a2 / (a2 - 1)) * g));
          S = set4 S 1 1 1 1
                (3 / (8 * (1 - \<nu>)) * a2 / (a2 - 1)
                 + 1 / (4 * (1 - \<nu>)) * (1 - 2 * \<nu> - 9 / (4 * (a2 - 1))) * g);
          S = set4 S 2 2 2 2 (S 1 1 1 1);
          S = set4 S 1 1 2 2
                (1 / (4 * (1 - \<nu>))
                 * (a2 / (2 * (a2 - 1)) - (1 - 2 * \<nu> + 3 / (4 * (a2 - 1))) * g));
          S = set4 S 2 2 1 1 (S 1 1 2 2);
          S = set4 S 1 1 0 0
                (- 1 / (2 * (1 - \<nu>)) * a2 / (a2 - 1)
                 + 1 / (4 * (1 - \<nu>)) * (3 * a2 / (a2 - 1) - (1 - 2 * \<nu>)) * g);
          S = set4 S 2 2 0 0 (S 1 1 0 0);
          S = set4 S 0 0 1 1
                (- 1 / (2 * (1 - \<nu>)) * (1 - 2 * \<nu> + 1 / (a2 - 1))
                 + 1 / (2 * (1 - \<nu>)) * (1 - 2 * \<nu> + 3 / (2 * (a2 - 1))) * g);
          S = set4 S 0 0 2 2 (S 0 0 1 1);
          S = set4 S 1 2 1 2
                (1 / (4 * (1 - \<nu>))
                 * (a2 / (2 * (a2 - 1)) + (1 - 2 * \<nu> - 3 / (4 * (a2 - 1))) * g));
          S = set4 S 2 1 2 1 (S 1 2 1 2);
          S = set4 S 0 1 0 1
                (1 / (4 * (1 - \<nu>))
                 * (1 - 2 * \<nu> - (a2 + 1) / (a2 - 1)
                    - 1 / 2 * (1 - 2 * \<nu> - 3 * (a2 + 1) / (a2 - 1)) * g));
          S = set4 S 0 2 0 2 (S 0 1 0 1)
      in S)"

text \<open>What \<^verbatim>\<open>_get_eshelby\<close> returns: an array of either shape, or Python's \<^verbatim>\<open>None\<close>.\<close>

datatype eshelby_result = Ret66 mat66 | Ret3333 tensor3333 | RetNone

definition get_eshelby :: "real \<Rightarrow> real \<Rightarrow> string \<Rightarrow> error + eshelby_result" where
  \<comment> \<open>\<^verbatim>\<open>MoriTanaka._get_eshelby(a_ratio, return_dim)\<close>, with \<^verbatim>\<open>self.matrix.nu\<close> as the
      first argument; the unused \<^verbatim>\<open>shape\<close> flag is left out\<close>
  "get_eshelby \<nu> a return_dim =
     (let a2 = a\<^sup>2
      in if float_max < a2 then Inl OverflowError
         else if 0 < a2 - 1 \<and> float_max < (a2 - 1) powr (3 / 2) then Inl OverflowError
         else if a2 - 1 = 0 then Inl ZeroDivisionError
         else if 1 - \<nu> = 0 then Inl ZeroDivisionError
         else if a2 - 1 < 0 then Inl TypeError
         else let S = eshelby3333 \<nu> a
              in if return_dim = ''66'' then Inr (Ret66 (tensor2mandel S))
                 else if return_dim = ''3333'' then Inr (Ret3333 S)
                 else Inr RetNone)"

subsection \<open>Effective stiffness\<close>

definition averages :: "phase_data \<Rightarrow> mat66 \<times> mat66" where
  \<comment> \<open>the loop of \<^verbatim>\<open>get_effective_stiffness\<close> over \<^verbatim>\<open>range(self.nr_constituents)\<close>; the
      state is the pair \<^verbatim>\<open>(A_ave, pol_A_ave)\<close>\<close>
  "averages ph =
     foldl (\<lambda>(A_ave, pol_A_ave) i.
              (madd A_ave (smul (c_alpha ph ! i) (A_f_alpha ph ! i)),
               madd pol_A_ave
                 (smul (c_alpha ph ! i) (tensor_product (pol_alpha ph ! i) (A_f_alpha ph ! i)))))
       (zeros66, zeros66) [0..<nr_constituents ph]"

definition get_effective_stiffness :: "mat66 \<Rightarrow> phase_data \<Rightarrow> error + mat66" where
  \<comment> \<open>\<^verbatim>\<open>MoriTanaka.get_effective_stiffness\<close>; the arguments are \<^verbatim>\<open>self.Cm\<close> and the
      attributes of the branch\<close>
  "get_effective_stiffness Cm' ph =
     (case ph of
        SingleData Cf' v a S \<Rightarrow>
          (case linalg_inv Cm' of
             None \<Rightarrow> Inl LinAlgError
           | Some Cm_inv \<Rightarrow>
               (let pol = msub Cf' Cm';
                    A_inv = madd eye6 (tensor_product S (tensor_product Cm_inv pol))
                in case linalg_inv (madd (smul v eye6) (smul (1 - v) A_inv)) of
                     None \<Rightarrow> Inl LinAlgError
                   | Some X \<Rightarrow> Inr (madd Cm' (smul v (tensor_product pol X)))))
      | MultiData n As pols cs cf \<Rightarrow>
          (let (A_ave, pol_A_ave) = averages ph
           in case linalg_inv (madd (smul cf A_ave) (smul (1 - cf) eye6)) of
                None \<Rightarrow> Inl LinAlgError
              | Some Y \<Rightarrow> Inr (madd Cm' (tensor_product (smul cf pol_A_ave) Y))))"

subsection \<open>The constructor\<close>

definition py_sum :: "real list \<Rightarrow> real" where
  \<comment> \<open>Python's \<^verbatim>\<open>sum\<close>: start from 0 and add from the left\<close>
  "py_sum xs = foldl (+) 0 xs"

fun init_loop ::
  "real \<Rightarrow> mat66 \<Rightarrow> mat66 \<Rightarrow> real \<Rightarrow> (material \<times> real \<times> real) list \<Rightarrow>
   mat66 list \<times> mat66 list \<times> real list \<Rightarrow> error + mat66 list \<times> mat66 list \<times> real list" where
  \<comment> \<open>the loop of \<^verbatim>\<open>__init__\<close> over the constituents, each a triple of
      \<^verbatim>\<open>fiber[i]\<close>, \<^verbatim>\<open>v_frac[i]\<close> and \<^verbatim>\<open>a_ratio[i]\<close>; the state is
      \<^verbatim>\<open>(A_f_alpha, pol_alpha, c_alpha)\<close>\<close>
  "init_loop \<nu> Cm' Cm_inv cf [] acc = Inr acc"
| "init_loop \<nu> Cm' Cm_inv cf ((fib, v, a) # rest) (As, pols, cs) =
     (let pol = msub (stiffness66 fib) Cm'
      in case get_eshelby \<nu> a ''66'' of
           Inl e \<Rightarrow> Inl e
         | Inr (Ret66 S) \<Rightarrow>
             (let A_inv = madd eye6 (tensor_product S (tensor_product Cm_inv pol))
              in case linalg_inv A_inv of
                   None \<Rightarrow> Inl LinAlgError
                 | Some A \<Rightarrow>
                     if cf = 0 then Inl ZeroDivisionError
                     else init_loop \<nu> Cm' Cm_inv cf rest
                            (As @ [A], pols @ [pol], cs @ [v / cf]))
         | Inr _ \<Rightarrow> Inl TypeError)"

definition finish_init :: "material \<Rightarrow> phase_data \<Rightarrow> error + MoriTanaka" where
  \<comment> \<open>the last two assignments of \<^verbatim>\<open>__init__\<close>\<close>
  "finish_init m ph =
     (case get_effective_stiffness (stiffness66 m) ph of
        Inl e \<Rightarrow> Inl e
      | Inr C \<Rightarrow>
          Inr \<lparr>matrix = m, Cm = stiffness66 m, phases = ph,
               effective_stiffness66 = C, effective_stiffness3333 = mandel2tensor C\<rparr>)"

definition MoriTanaka_init :: "material \<Rightarrow> inclusions \<Rightarrow> error + MoriTanaka" where
  \<comment> \<open>\<^verbatim>\<open>MoriTanaka.__init__(matrix, fiber, v_frac, a_ratio)\<close>\<close>
  "MoriTanaka_init m incl =
     (case incl of
        Single fiber v a \<Rightarrow>
          (case get_eshelby (nu m) a ''66'' of
             Inl e \<Rightarrow> Inl e
           | Inr (Ret66 S) \<Rightarrow> finish_init m (SingleData (stiffness66 fiber) v a S)
           | Inr _ \<Rightarrow> Inl TypeError)
      | Multi fiber v_fracs a_ratios \<Rightarrow>
          if \<not> (length fiber = length v_fracs \<and> length v_fracs = length a_ratios)
          then Inl AssertionError
          else
            (let n = length fiber; cf = py_sum v_fracs
             in case linalg_inv (stiffness66 m) of
                  None \<Rightarrow> Inl LinAlgError
                | Some Cm_inv \<Rightarrow>
                    (case init_loop (nu m) (stiffness66 m) Cm_inv cf
                            (zip fiber (zip v_fracs a_ratios)) ([], [], []) of
                       Inl e \<Rightarrow> Inl e
                     | Inr (As, pols, cs) \<Rightarrow> finish_init m (MultiData n As pols cs cf))))"

subsection \<open>Orientation average\<close>

text \<open>
  The argument \<^verbatim>\<open>N4\<close> is an array of shape (3, 3, 3, 3) or of shape (6, 6), which the
  function tells apart by \<^verbatim>\<open>N4.shape == (6, 6)\<close>.
\<close>

datatype n4_arg = N4_3333 tensor3333 | N4_66 mat66

definition get_orientation_average :: "tensor3333 \<Rightarrow> mat33 \<Rightarrow> n4_arg \<Rightarrow> tensor3333" where
  \<comment> \<open>\<^verbatim>\<open>MoriTanaka.get_orientation_average(tensor, N2, N4)\<close>\<close>
  "get_orientation_average tensor N2 N4_arg =
     (let N4 = (case N4_arg of N4_66 M \<Rightarrow> mandel2tensor M | N4_3333 T \<Rightarrow> T);
          b1 = tensor 0 0 0 0 + tensor 1 1 1 1 - 2 * tensor 0 0 1 1 - 4 * tensor 0 1 0 1;
          b2 = tensor 0 0 1 1 - tensor 1 1 2 2;
          b3 = tensor 0 1 0 1 + 1 / 2 * (tensor 1 1 2 2 - tensor 1 1 1 1);
          b4 = tensor 1 1 2 2;
          b5 = 1 / 2 * (tensor 1 1 1 1 - tensor 1 1 2 2)
      in tadd
           (tadd
              (tadd
                 (tadd (tscale b1 N4)
                    (tscale b2 (tadd (einsum_ij_kl_ijkl N2 eye3) (einsum_ij_kl_ijkl eye3 N2))))
                 (tscale b3
                    (tadd
                       (tadd (tadd (einsum_ik_lj_ijkl N2 eye3) (einsum_ik_lj_ijlk N2 eye3))
                          (einsum_ik_lj_klij eye3 N2))
                       (einsum_ik_lj_ijlk eye3 N2))))
              (tscale b4 (einsum_ij_kl_ijkl eye3 eye3)))
           (tscale (2 * b5 * 1 / 2)
              (tadd (einsum_ik_lj_ijkl eye3 eye3) (einsum_ik_lj_ijlk eye3 eye3))))"

subsection \<open>Symmetry check\<close>

text \<open>
  \<^verbatim>\<open>is_symmetric\<close> prints and returns nothing. Its model returns the printed lines; a
  line that formats the residuum keeps the number instead of its decimal text.
\<close>

datatype out_line = Text string | Residuum real

definition check_lines :: "string \<Rightarrow> real \<Rightarrow> out_line list" where
  \<comment> \<open>one \<^verbatim>\<open>if\<close>/\<^verbatim>\<open>else\<close> of \<^verbatim>\<open>is_symmetric\<close>; the residuum is printed only on failure\<close>
  "check_lines name res =
     (if res < 1 / 1000 then [Text (name @ '' symmetry: passed'')]
      else [Text (name @ '' symmetry: failed''), Residuum res])"

definition is_symmetric :: "MoriTanaka \<Rightarrow> out_line list" where
  \<comment> \<open>\<^verbatim>\<open>MoriTanaka.is_symmetric\<close>\<close>
  "is_symmetric self =
     (let T = effective_stiffness3333 self;
          left_minor = einsum_ijkl_jikl T;
          right_minor = einsum_ijkl_ijlk T;
          major = einsum_ijkl_klij T
      in check_lines ''Left minor'' (linalg_norm (tsub T left_minor))
         @ check_lines ''Right minor'' (linalg_norm (tsub T right_minor))
         @ check_lines ''Major'' (linalg_norm (tsub T major))
         @ [Text [CHR 0x0A]])"

section \<open>Notions of the specification\<close>

definition is_inverse :: "mat66 \<Rightarrow> mat66 \<Rightarrow> bool" where
  \<comment> \<open>\<open>B\<close> is the inverse of \<open>A\<close> for the Mandel matrix product\<close>
  "is_inverse A B \<longleftrightarrow> tensor_product A B = eye6 \<and> tensor_product B A = eye6"

definition powers_in_range :: "real \<Rightarrow> bool" where
  \<comment> \<open>the two powers \<open>a\<^sup>2\<close> and \<open>(a\<^sup>2 - 1)\<^sup>3\<^sup>/\<^sup>2\<close> of the Eshelby formulas are floats; for
      \<open>a > 1\<close> this holds up to about \<open>5.6e102\<close>\<close>
  "powers_in_range a \<longleftrightarrow> a\<^sup>2 \<le> float_max \<and> (a\<^sup>2 - 1) powr (3 / 2) \<le> float_max"

definition shape_g :: "real \<Rightarrow> real" where
  \<comment> \<open>the shape function \<open>g(a)\<close> of section 4.2\<close>
  "shape_g a = a / sqrt (a\<^sup>2 - 1) ^ 3 * (a * sqrt (a\<^sup>2 - 1) - arcosh a)"

definition eshelby_positions :: "(3 \<times> 3 \<times> 3 \<times> 3) set" where
  \<comment> \<open>the entries \<open>S1111\<close>, \<open>S2222 = S3333\<close>, \<open>S2233 = S3322\<close>, \<open>S2211 = S3311\<close>,
      \<open>S1122 = S1133\<close>, \<open>S2323 = S3232\<close> and \<open>S1212 = S1313\<close>, counted from 0\<close>
  "eshelby_positions =
     {(0, 0, 0, 0), (1, 1, 1, 1), (2, 2, 2, 2), (1, 1, 2, 2), (2, 2, 1, 1), (1, 1, 0, 0),
      (2, 2, 0, 0), (0, 0, 1, 1), (0, 0, 2, 2), (1, 2, 1, 2), (2, 1, 2, 1), (0, 1, 0, 1),
      (0, 2, 0, 2)}"

definition delta :: "3 \<Rightarrow> 3 \<Rightarrow> real" where
  \<comment> \<open>the Kronecker delta \<open>d_ij\<close>\<close>
  "delta i j = (if i = j then 1 else 0)"

definition symmetric33 :: "mat33 \<Rightarrow> bool" where
  "symmetric33 N \<longleftrightarrow> (\<forall>i j. N i j = N j i)"





definition swap_first_pair :: "tensor3333 \<Rightarrow> tensor3333" where
  "swap_first_pair T = (\<lambda>i j k l. T j i k l)"

definition swap_second_pair :: "tensor3333 \<Rightarrow> tensor3333" where
  "swap_second_pair T = (\<lambda>i j k l. T i j l k)"

definition swap_pairs :: "tensor3333 \<Rightarrow> tensor3333" where
  "swap_pairs T = (\<lambda>i j k l. T k l i j)"

definition residual :: "tensor3333 \<Rightarrow> tensor3333 \<Rightarrow> real" where
  \<comment> \<open>the Frobenius norm of \<open>T - T'\<close>\<close>
  "residual T T' = sqrt (\<Sum>i\<in>UNIV. \<Sum>j\<in>UNIV. \<Sum>k\<in>UNIV. \<Sum>l\<in>UNIV. (T i j k l - T' i j k l)\<^sup>2)"

definition paired :: "3 \<Rightarrow> 3 \<Rightarrow> 3 \<Rightarrow> 3 \<Rightarrow> bool" where
  \<comment> \<open>the four indices fall into two pairs of equal indices\<close>
  "paired i j k l \<longleftrightarrow> i = j \<and> k = l \<or> i = k \<and> j = l \<or> i = l \<and> j = k"

definition transversely_isotropic :: "tensor3333 \<Rightarrow> bool" where
  \<comment> \<open>a stiffness tensor that is transversely isotropic about the axis \<open>e1\<close>: it has the
      minor and major symmetries and the five independent constants \<open>C1111\<close>,
      \<open>C2222 = C3333\<close>, \<open>C1122 = C1133\<close>, \<open>C2233\<close> and \<open>C1212 = C1313\<close>, with
      \<open>C2323 = (C2222 - C2233) / 2\<close>; every entry whose indices do not pair up is zero\<close>
  "transversely_isotropic T \<longleftrightarrow>
     (\<forall>i j k l. T i j k l = T j i k l \<and> T i j k l = T i j l k \<and> T i j k l = T k l i j)
     \<and> T 2 2 2 2 = T 1 1 1 1 \<and> T 0 0 2 2 = T 0 0 1 1 \<and> T 0 2 0 2 = T 0 1 0 1
     \<and> T 1 2 1 2 = (T 1 1 1 1 - T 1 1 2 2) / 2
     \<and> (\<forall>i j k l. \<not> paired i j k l \<longrightarrow> T i j k l = 0)"

definition aligned_N2 :: mat33 where
  \<comment> \<open>\<open>diag(1, 0, 0)\<close>, the second-order orientation tensor of fibers aligned with \<open>e1\<close>\<close>
  "aligned_N2 = (\<lambda>i j. if i = 0 \<and> j = 0 then 1 else 0)"

definition aligned_N4 :: tensor3333 where
  \<comment> \<open>the fourth power of \<open>e1\<close>\<close>
  "aligned_N4 = (\<lambda>i j k l. if i = 0 \<and> j = 0 \<and> k = 0 \<and> l = 0 then 1 else 0)"

section \<open>Index sets and matrix algebra\<close>

lemma UNIV_3: "(UNIV :: 3 set) = {0, 1, 2}"
proof -
  have "card ({0, 1, 2} :: 3 set) = card (UNIV :: 3 set)" by simp
  then have "({0, 1, 2} :: 3 set) = UNIV"
    by (intro card_subset_eq) simp_all
  then show ?thesis by simp
qed

lemma UNIV_6: "(UNIV :: 6 set) = {0, 1, 2, 3, 4, 5}"
proof -
  have "card ({0, 1, 2, 3, 4, 5} :: 6 set) = card (UNIV :: 6 set)" by simp
  then have "({0, 1, 2, 3, 4, 5} :: 6 set) = UNIV"
    by (intro card_subset_eq) simp_all
  then show ?thesis by simp
qed

lemma forall_3: "(\<forall>i::3. P i) \<longleftrightarrow> P 0 \<and> P 1 \<and> P 2"
proof -
  have "(\<forall>i::3. P i) \<longleftrightarrow> (\<forall>i\<in>UNIV. P i)" by simp
  also have "\<dots> \<longleftrightarrow> P 0 \<and> P 1 \<and> P 2" unfolding UNIV_3 by simp
  finally show ?thesis .
qed


lemma sum_3: "(\<Sum>i\<in>(UNIV :: 3 set). f i) = f 0 + f 1 + (f 2 :: real)"
  unfolding UNIV_3 by simp


lemma tp_assoc:
  "tensor_product (tensor_product A B) C = tensor_product A (tensor_product B C)"
proof (intro ext)
  fix i l
  have "(\<Sum>k\<in>UNIV. (\<Sum>j\<in>UNIV. A i j * B j k) * C k l)
      = (\<Sum>k\<in>UNIV. \<Sum>j\<in>UNIV. A i j * B j k * C k l)"
    by (simp add: sum_distrib_right)
  also have "\<dots> = (\<Sum>j\<in>UNIV. \<Sum>k\<in>UNIV. A i j * B j k * C k l)"
    by (rule sum.swap)
  also have "\<dots> = (\<Sum>j\<in>UNIV. A i j * (\<Sum>k\<in>UNIV. B j k * C k l))"
    by (simp add: sum_distrib_left mult.assoc)
  finally show "tensor_product (tensor_product A B) C i l
      = tensor_product A (tensor_product B C) i l"
    by (simp add: tensor_product_def)
qed

lemma tp_eye_left: "tensor_product eye6 A = A"
proof (intro ext)
  fix i k
  have "(\<Sum>j\<in>UNIV. (if i = j then 1 else 0) * A j k) = (\<Sum>j\<in>UNIV. if i = j then A j k else 0)"
    by (rule sum.cong) auto
  then show "tensor_product eye6 A i k = A i k"
    by (simp add: tensor_product_def eye6_def)
qed

lemma tp_eye_right: "tensor_product A eye6 = A"
proof (intro ext)
  fix i k
  have "(\<Sum>j\<in>UNIV. A i j * (if j = k then 1 else 0)) = (\<Sum>j\<in>UNIV. if j = k then A i j else 0)"
    by (rule sum.cong) auto
  then show "tensor_product A eye6 i k = A i k"
    by (simp add: tensor_product_def eye6_def)
qed


lemma tp_zero_right: "tensor_product A zeros66 = zeros66"
  by (intro ext) (simp add: tensor_product_def zeros66_def)

lemma tp_zero_left: "tensor_product zeros66 A = zeros66"
  by (intro ext) (simp add: tensor_product_def zeros66_def)

lemma swap_rows_tp: "swap_rows r c (tensor_product A B) = tensor_product (swap_rows r c A) B"
  by (intro ext) (simp add: swap_rows_def tensor_product_def)

lemma scale_row_tp: "scale_row c s (tensor_product A B) = tensor_product (scale_row c s A) B"
  by (intro ext) (simp add: scale_row_def tensor_product_def sum_distrib_left mult.assoc)

lemma sub_rows_tp: "sub_rows c f (tensor_product A B) = tensor_product (sub_rows c f A) B"
  by (intro ext)
    (simp add: sub_rows_def tensor_product_def sum_distrib_left sum_subtractf left_diff_distrib
      mult.assoc)

lemma is_inverse_unique: "is_inverse A B \<Longrightarrow> is_inverse A C \<Longrightarrow> B = C"
proof -
  assume b: "is_inverse A B" and c: "is_inverse A C"
  have "B = tensor_product B (tensor_product A C)"
    using c by (simp add: is_inverse_def tp_eye_right)
  also have "\<dots> = tensor_product (tensor_product B A) C"
    by (simp add: tp_assoc)
  also have "\<dots> = C"
    using b by (simp add: is_inverse_def tp_eye_left)
  finally show ?thesis .
qed

lemma is_inverse_tp:
  assumes "is_inverse A A'" and "is_inverse B B'"
  shows "is_inverse (tensor_product A B) (tensor_product B' A')"
proof -
  have "tensor_product (tensor_product A B) (tensor_product B' A')
      = tensor_product A (tensor_product (tensor_product B B') A')"
    by (simp add: tp_assoc)
  moreover have "tensor_product (tensor_product B' A') (tensor_product A B)
      = tensor_product B' (tensor_product (tensor_product A' A) B)"
    by (simp add: tp_assoc)
  ultimately show ?thesis
    using assms by (simp add: is_inverse_def tp_eye_left tp_eye_right)
qed

lemma swap_rows_inv: "is_inverse (swap_rows r c eye6) (swap_rows r c eye6)"
proof -
  have "swap_rows r c (swap_rows r c eye6) = eye6"
    by (intro ext) (auto simp: swap_rows_def)
  then show ?thesis
    by (metis is_inverse_def swap_rows_tp tp_eye_left)
qed

lemma scale_row_inv:
  assumes "s \<noteq> 0"
  shows "is_inverse (scale_row c s eye6) (scale_row c (1 / s) eye6)"
proof -
  have "scale_row c s (scale_row c (1 / s) eye6) = eye6"
    "scale_row c (1 / s) (scale_row c s eye6) = eye6"
    using assms by (auto simp: scale_row_def fun_eq_iff)
  then show ?thesis
    by (metis is_inverse_def scale_row_tp tp_eye_left)
qed

lemma sub_rows_inv: "is_inverse (sub_rows c f eye6) (sub_rows c (\<lambda>i. - f i) eye6)"
proof -
  have "sub_rows c f (sub_rows c (\<lambda>i. - f i) eye6) = eye6"
    "sub_rows c (\<lambda>i. - f i) (sub_rows c f eye6) = eye6"
    by (auto simp: sub_rows_def fun_eq_iff eye6_def)
  then show ?thesis
    by (metis is_inverse_def sub_rows_tp tp_eye_left)
qed

lemma tp_madd_left:
  "tensor_product (madd A B) C = madd (tensor_product A C) (tensor_product B C)"
  by (intro ext) (simp add: tensor_product_def madd_def distrib_right sum.distrib)


lemma tp_smul_left: "tensor_product (smul c A) B = smul c (tensor_product A B)"
  by (intro ext) (simp add: tensor_product_def smul_def sum_distrib_left mult.assoc)

lemma tp_smul_right: "tensor_product A (smul c B) = smul c (tensor_product A B)"
  by (intro ext) (simp add: tensor_product_def smul_def sum_distrib_left mult.left_commute)

lemma smul_smul: "smul a (smul b A) = smul (a * b) A"
  by (intro ext) (simp add: smul_def)

lemma smul_one: "smul 1 A = A"
  by (intro ext) (simp add: smul_def)

lemma smul_zero: "smul 0 A = zeros66"
  by (intro ext) (simp add: smul_def zeros66_def)

lemma smul_zeros: "smul c zeros66 = zeros66"
  by (intro ext) (simp add: smul_def zeros66_def)

lemma madd_zero_left: "madd zeros66 A = A"
  by (intro ext) (simp add: madd_def zeros66_def)

lemma madd_zero_right: "madd A zeros66 = A"
  by (intro ext) (simp add: madd_def zeros66_def)

lemma madd_smul: "madd (smul a A) (smul b A) = smul (a + b) A"
  by (intro ext) (simp add: madd_def smul_def distrib_right)

lemma msub_self: "msub A A = zeros66"
  by (intro ext) (simp add: msub_def zeros66_def)

lemma is_inverse_eye: "is_inverse eye6 eye6"
  by (simp add: is_inverse_def tp_eye_left)

lemma is_inverse_smul_eye: "c \<noteq> 0 \<Longrightarrow> is_inverse (smul c eye6) (smul (1 / c) eye6)"
  by (simp add: is_inverse_def tp_smul_left tp_smul_right tp_eye_left smul_smul smul_one)

lemmas matrix_simps =
  tp_eye_left tp_eye_right tp_zero_left tp_zero_right tp_smul_left tp_smul_right
  smul_smul smul_one smul_zero smul_zeros madd_zero_left madd_zero_right madd_smul msub_self

section \<open>Correctness of the matrix inversion\<close>

lemma gj_none_singular:
  assumes none: "\<forall>r\<in>set (c # cs). M r c = 0"
    and cols: "\<forall>k. k \<notin> set (c # cs) \<longrightarrow> (\<forall>i. M i k = eye6 i k)"
  shows "\<not> (\<exists>L. tensor_product L M = eye6)"
proof
  assume "\<exists>L. tensor_product L M = eye6"
  then obtain L where L: "tensor_product L M = eye6" ..
  define X :: mat66 where
    "X = (\<lambda>k j. if k = c then 1 else if k \<in> set cs then 0 else - M k c)"
  have "tensor_product M X i j = 0" for i j
  proof -
    have "M i k * X k j
        = (if k = c then M i c else 0) + (if k = i \<and> k \<notin> set (c # cs) then - M i c else 0)" for k
      using cols by (auto simp: X_def eye6_def)
    then have "tensor_product M X i j
        = (\<Sum>k\<in>UNIV. (if k = c then M i c else 0)
             + (if k = i \<and> k \<notin> set (c # cs) then - M i c else 0))"
      by (simp add: tensor_product_def)
    also have "\<dots> = M i c + (\<Sum>k\<in>UNIV. if k = i \<and> k \<notin> set (c # cs) then - M i c else 0)"
      by (simp add: sum.distrib)
    also have "(\<Sum>k\<in>UNIV. if k = i \<and> k \<notin> set (c # cs) then - M i c else 0)
        = (\<Sum>k\<in>UNIV. if k = i then (if i \<notin> set (c # cs) then - M i c else 0) else 0)"
      by (rule sum.cong) auto
    also have "\<dots> = (if i \<notin> set (c # cs) then - M i c else 0)"
      by simp
    finally show ?thesis using none by auto
  qed
  then have "tensor_product M X = zeros66"
    by (intro ext) (simp add: zeros66_def)
  then have "tensor_product L (tensor_product M X) = zeros66"
    by (simp add: tp_zero_right)
  then have "X = zeros66"
    using L by (simp add: tp_assoc [symmetric] tp_eye_left)
  then have "X c 0 = 0" by (simp add: zeros66_def)
  then show False by (simp add: X_def)
qed

lemma gj_correct:
  assumes "distinct cs"
    and "tensor_product P M0 = M"
    and "\<exists>Q. is_inverse P Q"
    and "\<forall>k. k \<notin> set cs \<longrightarrow> (\<forall>i. M i k = eye6 i k)"
  shows "case gauss_jordan cs M P of
           Some R \<Rightarrow> is_inverse M0 R
         | None \<Rightarrow> \<not> (\<exists>N. is_inverse M0 N)"
  using assms
proof (induction cs arbitrary: M P)
  case Nil
  then have "M = eye6" by (intro ext) simp
  with Nil have PM: "tensor_product P M0 = eye6" by simp
  from Nil obtain Q where Q: "is_inverse P Q" by blast
  have "M0 = tensor_product (tensor_product Q P) M0"
    using Q by (simp add: is_inverse_def tp_eye_left)
  also have "\<dots> = Q" using PM by (simp add: tp_assoc tp_eye_right)
  finally have "M0 = Q" .
  with Q PM show ?case by (simp add: is_inverse_def)
next
  case (Cons c cs)
  from Cons.prems obtain Q where Q: "is_inverse P Q" by blast
  show ?case
  proof (cases "find (\<lambda>r. M r c \<noteq> 0) (c # cs)")
    case None
    then have "\<forall>r\<in>set (c # cs). M r c = 0"
      by (simp only: find_None_iff) blast
    then have noL: "\<not> (\<exists>L. tensor_product L M = eye6)"
      using Cons.prems(4) by (rule gj_none_singular)
    have "\<not> (\<exists>N. is_inverse M0 N)"
    proof
      assume "\<exists>N. is_inverse M0 N"
      then obtain N where N: "is_inverse M0 N" ..
      have "tensor_product (tensor_product N Q) M
          = tensor_product N (tensor_product (tensor_product Q P) M0)"
        using Cons.prems(2) by (simp add: tp_assoc)
      also have "\<dots> = eye6"
        using Q N by (simp add: is_inverse_def tp_eye_left)
      finally show False using noL by blast
    qed
    with None show ?thesis by (simp del: find.simps)
  next
    case (Some r)
    then obtain n where n: "n < length (c # cs)" "M ((c # cs) ! n) c \<noteq> 0" "r = (c # cs) ! n"
      unfolding find_Some_iff by blast
    then have r: "r \<in> set (c # cs)" and p: "M r c \<noteq> 0"
      using nth_mem [of n "c # cs"] by simp_all
    define s where "s = 1 / swap_rows r c M c c"
    define M2 where "M2 = scale_row c s (swap_rows r c M)"
    define P2 where "P2 = scale_row c s (swap_rows r c P)"
    define f where "f = (\<lambda>i. M2 i c)"
    have step: "gauss_jordan (c # cs) M P = gauss_jordan cs (sub_rows c f M2) (sub_rows c f P2)"
      using Some by (simp add: Let_def s_def M2_def P2_def f_def del: find.simps)
    have s: "s \<noteq> 0" and sp: "s * M r c = 1"
      using p by (auto simp: s_def swap_rows_def)
    have c: "c \<notin> set cs" and d: "distinct cs" using Cons.prems(1) by auto
    have 1: "tensor_product (sub_rows c f P2) M0 = sub_rows c f M2"
      using Cons.prems(2)
      by (simp add: P2_def M2_def sub_rows_tp [symmetric] scale_row_tp [symmetric]
          swap_rows_tp [symmetric])
    have "sub_rows c f P2
        = tensor_product (sub_rows c f eye6)
            (tensor_product (scale_row c s eye6) (tensor_product (swap_rows r c eye6) P))"
      by (simp add: P2_def sub_rows_tp [symmetric] scale_row_tp [symmetric]
          swap_rows_tp [symmetric] tp_eye_left)
    moreover have "\<exists>Q'. is_inverse
        (tensor_product (sub_rows c f eye6)
            (tensor_product (scale_row c s eye6) (tensor_product (swap_rows r c eye6) P))) Q'"
      using is_inverse_tp [OF sub_rows_inv
          is_inverse_tp [OF scale_row_inv [OF s] is_inverse_tp [OF swap_rows_inv Q]]]
      by blast
    ultimately have 2: "\<exists>Q'. is_inverse (sub_rows c f P2) Q'" by simp
    have 3: "\<forall>k. k \<notin> set cs \<longrightarrow> (\<forall>i. sub_rows c f M2 i k = eye6 i k)"
    proof (intro allI impI)
      fix k i
      assume k: "k \<notin> set cs"
      show "sub_rows c f M2 i k = eye6 i k"
      proof (cases "k = c")
        case True
        have "M2 c c = 1" using sp by (auto simp: M2_def scale_row_def swap_rows_def)
        then show ?thesis using True
          by (simp add: sub_rows_def f_def eye6_def)
      next
        case False
        with k have kn: "k \<notin> set (c # cs)" by simp
        then have col: "M i' k = eye6 i' k" for i' using Cons.prems(4) by blast
        have "k \<noteq> r" using r kn by auto
        then have "M2 i' k = eye6 i' k" for i'
          using False col [of r] col [of c] col [of i']
          by (auto simp: M2_def scale_row_def swap_rows_def eye6_def)
        then show ?thesis using False
          by (auto simp: sub_rows_def eye6_def)
      qed
    qed
    show ?thesis
      unfolding step by (rule Cons.IH [OF d 1 2 3])
  qed
qed

lemma linalg_inv_iff: "linalg_inv M = Some N \<longleftrightarrow> is_inverse M N"
proof -
  have d: "distinct [0, 1, 2, 3, 4, 5 :: 6]" by simp
  have e: "\<exists>Q. is_inverse eye6 Q"
    by (rule exI [of _ eye6]) (simp add: is_inverse_def tp_eye_left)
  have u: "\<forall>k. k \<notin> set [0, 1, 2, 3, 4, 5 :: 6] \<longrightarrow> (\<forall>i. M i k = eye6 i k)"
    using UNIV_6 by auto
  have t: "tensor_product eye6 M = M" by (rule tp_eye_left)
  have *: "case linalg_inv M of Some R \<Rightarrow> is_inverse M R | None \<Rightarrow> \<not> (\<exists>N. is_inverse M N)"
    unfolding linalg_inv_def by (rule gj_correct [OF d t e u])
  show ?thesis
  proof
    assume "linalg_inv M = Some N"
    with * show "is_inverse M N" by simp
  next
    assume N: "is_inverse M N"
    with * obtain R where R: "linalg_inv M = Some R" "is_inverse M R"
      by (cases "linalg_inv M") auto
    with N show "linalg_inv M = Some N" by (simp add: is_inverse_unique)
  qed
qed

section \<open>The Eshelby tensor\<close>

lemma eshelby_g_eq:
  assumes "1 < a"
  shows "eshelby_g a = shape_g a"
proof -
  have pos: "0 < a\<^sup>2 - 1" using assms by (simp add: power2_eq_square less_1_mult)
  have h: "(a\<^sup>2 - 1) powr (1 / 2) = sqrt (a\<^sup>2 - 1)"
    using pos by (simp add: powr_half_sqrt)
  have "(a\<^sup>2 - 1) powr (3 / 2) = ((a\<^sup>2 - 1) powr (1 / 2)) powr 3"
    by (simp add: powr_powr)
  also have "\<dots> = sqrt (a\<^sup>2 - 1) ^ 3"
    using pos h by (simp add: powr_numeral)
  finally show ?thesis
    using h by (simp add: eshelby_g_def shape_g_def Let_def)
qed

lemma float_max_ge: "((10 :: real) ^ 100) ^ 3 \<le> float_max"
proof -
  have "((10 :: real) ^ 3) ^ 100 \<le> (2 ^ 10) ^ 100"
    by (rule power_mono) simp_all
  then have "((10 :: real) ^ 100) ^ 3 \<le> 2 ^ (10 * 100)"
    by (simp only: power_mult [symmetric] mult.commute)
  also have "(2 :: real) ^ (10 * 100) \<le> 2 ^ (52 + 971)"
    by (rule power_increasing) simp_all
  also have "(2 :: real) ^ (52 + 971) = 2 ^ 52 * 2 ^ 971"
    by (rule power_add)
  also have "\<dots> \<le> (2 ^ 53 - 1) * 2 ^ 971"
    by (rule mult_right_mono [OF _ zero_le_power]) simp_all
  finally show ?thesis by (simp only: float_max_def)
qed

lemma float_max_ge_1: "1 \<le> float_max"
proof -
  have "(1 :: real) \<le> (10 ^ 100) ^ 3"
    by (intro one_le_power) simp_all
  then show ?thesis using float_max_ge by (rule order_trans)
qed

lemma float_max_less: "float_max < ((10 :: real) ^ 200)\<^sup>2"
proof -
  have "float_max < 2 ^ 53 * (2 :: real) ^ 971"
    unfolding float_max_def by (rule mult_strict_right_mono [OF _ zero_less_power]) simp_all
  also have "\<dots> = 2 ^ (53 + 971)"
    by (rule power_add [symmetric])
  also have "\<dots> \<le> (2 :: real) ^ (13 * 79)"
    by (rule power_increasing) simp_all
  also have "\<dots> = (2 ^ 13) ^ 79"
    by (rule power_mult)
  also have "\<dots> \<le> ((10 :: real) ^ 4) ^ 79"
    by (rule power_mono) simp_all
  also have "\<dots> = 10 ^ (4 * 79)"
    by (rule power_mult [symmetric])
  also have "\<dots> \<le> (10 :: real) ^ (200 * 2)"
    by (rule power_increasing) simp_all
  also have "\<dots> = (10 ^ 200)\<^sup>2"
    by (rule power_mult)
  finally show ?thesis .
qed

lemma powers_in_range_small:
  assumes "1 < a" and "a \<le> 10 ^ 100"
  shows "powers_in_range a"
proof -
  have a0: "0 < a" using assms(1) by simp
  have "a ^ 3 \<le> (10 ^ 100) ^ 3"
    using assms(2) a0 by (intro power_mono) (rule assms(2), rule less_imp_le)
  then have c: "a ^ 3 \<le> float_max" using float_max_ge by (rule order_trans)
  have "a\<^sup>2 * 1 \<le> a\<^sup>2 * a" using assms(1) by (intro mult_left_mono) simp_all
  then have "a\<^sup>2 \<le> a ^ 3" by (simp add: power2_eq_square power3_eq_cube)
  from this c have 1: "a\<^sup>2 \<le> float_max" by (rule order_trans)
  have "(a\<^sup>2 - 1) powr (3 / 2) \<le> (a\<^sup>2) powr (3 / 2)"
    using assms(1) by (intro powr_mono2) (simp_all add: power2_eq_square less_1_mult less_imp_le)
  also have "(a\<^sup>2) powr (3 / 2) = a powr 3"
    using a0 by (simp add: powr_powr flip: powr_numeral)
  also have "\<dots> = a ^ 3" using a0 by (simp add: powr_numeral)
  finally have "(a\<^sup>2 - 1) powr (3 / 2) \<le> a ^ 3" .
  from this c have "(a\<^sup>2 - 1) powr (3 / 2) \<le> float_max" by (rule order_trans)
  with 1 show ?thesis by (simp only: powers_in_range_def simp_thms)
qed

lemma powers_in_range_10:
  assumes "1 < a" and "a \<le> 10"
  shows "powers_in_range a"
proof -
  have "(10 :: real) ^ 1 \<le> 10 ^ 100" by (rule power_increasing) simp_all
  with assms(2) have "a \<le> 10 ^ 100" by simp
  with assms(1) show ?thesis by (rule powers_in_range_small)
qed

lemma get_eshelby_ok:
  assumes "1 < a" and "powers_in_range a" and "\<nu> \<noteq> 1"
  shows "get_eshelby \<nu> a d =
     (if d = ''66'' then Inr (Ret66 (tensor2mandel (eshelby3333 \<nu> a)))
      else if d = ''3333'' then Inr (Ret3333 (eshelby3333 \<nu> a)) else Inr RetNone)"
proof -
  have "0 < a\<^sup>2 - 1" using assms(1) by (simp add: power2_eq_square less_1_mult)
  then show ?thesis
    using assms(2,3) by (simp add: get_eshelby_def Let_def powers_in_range_def not_less)
qed

lemma get_eshelby_overflow:
  assumes "1 < a" and "\<not> powers_in_range a"
  shows "get_eshelby \<nu> a d = Inl OverflowError"
proof -
  have "0 < a\<^sup>2 - 1" using assms(1) by (simp add: power2_eq_square less_1_mult)
  then show ?thesis
    using assms(2) by (auto simp: get_eshelby_def Let_def powers_in_range_def not_le)
qed

lemma get_eshelby_error:
  "get_eshelby \<nu> a d = Inl e \<Longrightarrow> e \<noteq> AssertionError \<and> e \<noteq> LinAlgError"
  by (auto simp: get_eshelby_def Let_def split: if_splits)

text \<open>
  Claim C4. For a matrix Poisson ratio \<open>0 \<le> \<nu> < 1/2\<close> and an aspect ratio \<open>a > 1\<close>,
  the tensor that \<^verbatim>\<open>_get_eshelby\<close> computes and, with the flag \<^verbatim>\<open>"3333"\<close>, returns
  has at the thirteen positions \<open>S1111\<close>, \<open>S2222 = S3333\<close>, \<open>S2233 = S3322\<close>, \<open>S2211 = S3311\<close>,
  \<open>S1122 = S1133\<close>, \<open>S2323 = S3232\<close> and \<open>S1212 = S1313\<close> the closed forms in
  \<open>a\<^sup>2\<close>, \<open>\<nu>\<close> and the shape function \<open>g(a)\<close>, with the stated equalities inside each
  family, and zero at every other entry. The positions are counted from 0 as in the
  source, so \<open>S1122\<close> is \<open>S 0 0 1 1\<close>. The call returns that tensor for every such
  \<open>a\<close> whose powers are floats; for a larger \<open>a\<close> (above about \<open>5.6e102\<close>) the power
  operator overflows and no tensor is returned.
\<close>

theorem eshelby_components:
  assumes "0 \<le> \<nu>" and "\<nu> < 1 / 2" and "1 < a"
  shows "\<exists>S. get_eshelby \<nu> a ''3333''
        = (if powers_in_range a then Inr (Ret3333 S) else Inl OverflowError)
    \<and> S 0 0 0 0 = (1 - 2 * \<nu> + (3 * a\<^sup>2 - 1) / (a\<^sup>2 - 1)
                     - (1 - 2 * \<nu> + 3 * a\<^sup>2 / (a\<^sup>2 - 1)) * shape_g a) / (2 * (1 - \<nu>))
    \<and> S 1 1 1 1 = 3 * a\<^sup>2 / (8 * (1 - \<nu>) * (a\<^sup>2 - 1))
                     + (1 - 2 * \<nu> - 9 / (4 * (a\<^sup>2 - 1))) * shape_g a / (4 * (1 - \<nu>))
    \<and> S 2 2 2 2 = S 1 1 1 1
    \<and> S 1 1 2 2 = (a\<^sup>2 / (2 * (a\<^sup>2 - 1))
                     - (1 - 2 * \<nu> + 3 / (4 * (a\<^sup>2 - 1))) * shape_g a) / (4 * (1 - \<nu>))
    \<and> S 2 2 1 1 = S 1 1 2 2
    \<and> S 1 1 0 0 = - a\<^sup>2 / (2 * (1 - \<nu>) * (a\<^sup>2 - 1))
                     + (3 * a\<^sup>2 / (a\<^sup>2 - 1) - (1 - 2 * \<nu>)) * shape_g a / (4 * (1 - \<nu>))
    \<and> S 2 2 0 0 = S 1 1 0 0
    \<and> S 0 0 1 1 = - (1 - 2 * \<nu> + 1 / (a\<^sup>2 - 1)) / (2 * (1 - \<nu>))
                     + (1 - 2 * \<nu> + 3 / (2 * (a\<^sup>2 - 1))) * shape_g a / (2 * (1 - \<nu>))
    \<and> S 0 0 2 2 = S 0 0 1 1
    \<and> S 1 2 1 2 = (a\<^sup>2 / (2 * (a\<^sup>2 - 1))
                     + (1 - 2 * \<nu> - 3 / (4 * (a\<^sup>2 - 1))) * shape_g a) / (4 * (1 - \<nu>))
    \<and> S 2 1 2 1 = S 1 2 1 2
    \<and> S 0 1 0 1 = (1 - 2 * \<nu> - (a\<^sup>2 + 1) / (a\<^sup>2 - 1)
                     - (1 - 2 * \<nu> - 3 * (a\<^sup>2 + 1) / (a\<^sup>2 - 1)) * shape_g a / 2)
                    / (4 * (1 - \<nu>))
    \<and> S 0 2 0 2 = S 0 1 0 1
    \<and> (\<forall>i j k l. (i, j, k, l) \<notin> eshelby_positions \<longrightarrow> S i j k l = 0)"
proof -
  have n: "\<nu> \<noteq> 1" using assms(2) by simp
  have g: "eshelby_g a = shape_g a" using assms(3) by (rule eshelby_g_eq)
  have r: "get_eshelby \<nu> a ''3333''
      = (if powers_in_range a then Inr (Ret3333 (eshelby3333 \<nu> a)) else Inl OverflowError)"
    using get_eshelby_ok [OF assms(3) _ n, of "''3333''"] get_eshelby_overflow [OF assms(3)]
    by auto
  have m: "- ((1 - 2 * \<nu> + 1 / (a\<^sup>2 - 1)) / (2 - 2 * \<nu>))
      = (2 * \<nu> - 1 - 1 / (a\<^sup>2 - 1)) / (2 - 2 * \<nu>)"
    unfolding minus_divide_left by simp
  show ?thesis
    unfolding r
    by (rule exI [of _ "eshelby3333 \<nu> a"],
        simp add: eshelby3333_def Let_def set4_def zeros3333_def g eshelby_positions_def,
        rule m)
qed

theorem eshelby_components_witness:
  "(0 :: real) \<le> 1 / 4 \<and> (1 / 4 :: real) < 1 / 2 \<and> (1 :: real) < 2 \<and> powers_in_range 2
   \<and> (1, 2, 2, 1) \<notin> eshelby_positions
   \<and> (\<exists>S. get_eshelby (1 / 4) 2 ''3333'' = Inr (Ret3333 S)
        \<and> S 2 2 2 2 = S 1 1 1 1 \<and> S 0 2 0 2 = S 0 1 0 1 \<and> S 1 2 2 1 = 0)"
proof -
  have p: "(1, 2, 2, 1) \<notin> eshelby_positions" by (simp add: eshelby_positions_def)
  have q: "powers_in_range 2" by (rule powers_in_range_10) simp_all
  from eshelby_components [of "1 / 4" 2] q obtain S where
    "get_eshelby (1 / 4) 2 ''3333'' = Inr (Ret3333 S)" "S 2 2 2 2 = S 1 1 1 1"
    "S 0 2 0 2 = S 0 1 0 1" "\<forall>i j k l. (i, j, k, l) \<notin> eshelby_positions \<longrightarrow> S i j k l = 0"
    by auto
  with p q show ?thesis by auto
qed

text \<open>
  Claim C10, as stated, fails at the aspect ratio 1: the shape function divides by
  \<open>(a\<^sup>2 - 1)\<^sup>3\<^sup>/\<^sup>2 = 0\<close>, so the call raises \<^verbatim>\<open>ZeroDivisionError\<close> before the flag is
  looked at, whatever the flag is. It fails as well below 1, at \<open>1/2\<close> with a
  \<^verbatim>\<open>TypeError\<close>, and for a very large aspect ratio, at \<open>1e200\<close> with an
  \<^verbatim>\<open>OverflowError\<close>.
\<close>

theorem get_eshelby_at_one_raises:
  "''99'' \<noteq> ''66'' \<and> ''99'' \<noteq> ''3333''
   \<and> get_eshelby (1 / 4) 1 ''99'' = Inl ZeroDivisionError
   \<and> get_eshelby (1 / 4) (1 / 2) ''99'' = Inl TypeError
   \<and> get_eshelby (1 / 4) (10 ^ 200) ''99'' = Inl OverflowError"
proof -
  have 1: "\<not> float_max < 1" "\<not> float_max < 1 / 4"
    using float_max_ge_1 by simp_all
  have 2: "get_eshelby (1 / 4) 1 ''99'' = Inl ZeroDivisionError"
    using 1 by (simp add: get_eshelby_def Let_def)
  have 3: "get_eshelby (1 / 4) (1 / 2) ''99'' = Inl TypeError"
    using 1 by (simp add: get_eshelby_def Let_def power2_eq_square)
  have 4: "get_eshelby (1 / 4) (10 ^ 200) ''99'' = Inl OverflowError"
    using float_max_less by (simp only: get_eshelby_def Let_def if_True)
  from 2 3 4 show ?thesis by simp
qed

text \<open>
  Claim C10, amended. For every aspect ratio \<open>a > 1\<close> whose powers \<^verbatim>\<open>a ** 2\<close> and
  \<^verbatim>\<open>(a ** 2 - 1) ** (3 / 2)\<close> are floats (up to about \<open>5.6e102\<close>) and every matrix Poisson
  ratio other than 1, \<^verbatim>\<open>_get_eshelby\<close> with a flag other than \<^verbatim>\<open>"66"\<close> and \<^verbatim>\<open>"3333"\<close>
  returns \<^verbatim>\<open>None\<close> without raising; with \<^verbatim>\<open>"66"\<close> it returns the reduced form and with
  \<^verbatim>\<open>"3333"\<close> the full array of the same tensor.
\<close>

theorem get_eshelby_return_dim:
  assumes "1 < a" and "powers_in_range a" and "\<nu> \<noteq> 1"
  shows "(d \<noteq> ''66'' \<and> d \<noteq> ''3333'' \<longrightarrow> get_eshelby \<nu> a d = Inr RetNone)
    \<and> get_eshelby \<nu> a ''66'' = Inr (Ret66 (tensor2mandel (eshelby3333 \<nu> a)))
    \<and> get_eshelby \<nu> a ''3333'' = Inr (Ret3333 (eshelby3333 \<nu> a))"
  using assms by (simp add: get_eshelby_ok)

theorem get_eshelby_return_dim_witness:
  "(1 :: real) < 2 \<and> powers_in_range 2 \<and> (1 / 4 :: real) \<noteq> 1
   \<and> ''99'' \<noteq> ''66'' \<and> ''99'' \<noteq> ''3333''
   \<and> get_eshelby (1 / 4) 2 ''99'' = Inr RetNone
   \<and> get_eshelby (1 / 4) 2 ''66'' = Inr (Ret66 (tensor2mandel (eshelby3333 (1 / 4) 2)))
   \<and> get_eshelby (1 / 4) 2 ''3333'' = Inr (Ret3333 (eshelby3333 (1 / 4) 2))"
proof -
  have q: "powers_in_range 2" by (rule powers_in_range_10) simp_all
  from get_eshelby_return_dim [of 2 "1 / 4" "''99''", OF _ q] q show ?thesis by simp
qed

section \<open>The constructor\<close>

lemma get_effective_stiffness_error:
  "get_effective_stiffness C ph = Inl e \<Longrightarrow> e = LinAlgError"
  by (auto simp: get_effective_stiffness_def Let_def
      split: phase_data.splits option.splits prod.splits)

lemma finish_init_error: "finish_init m ph = Inl e \<Longrightarrow> e = LinAlgError"
  by (auto simp: finish_init_def split: sum.splits dest: get_effective_stiffness_error)

lemma init_loop_error:
  "init_loop \<nu> C Ci cf xs acc \<noteq> Inl AssertionError"
proof (induction xs arbitrary: acc)
  case Nil
  then show ?case by simp
next
  case (Cons x xs)
  obtain fib v a where x: "x = (fib, v, a)" by (cases x)
  obtain As pols cs where acc: "acc = (As, pols, cs)" by (cases acc)
  show ?case
    unfolding x acc using Cons.IH
    by (auto simp: Let_def split: sum.splits eshelby_result.splits option.splits if_splits
        dest: get_eshelby_error)
qed

text \<open>
  Claim C7. When the three lists of a multi-inclusion construction do not all have the
  same length, the constructor fails with the assertion error on the dimensions and
  returns no object; when they have the same length, it does not fail with that error.
\<close>

theorem init_dimension_check:
  "(\<not> (length fiber = length v_fracs \<and> length v_fracs = length a_ratios) \<longrightarrow>
      MoriTanaka_init m (Multi fiber v_fracs a_ratios) = Inl AssertionError)
   \<and> (length fiber = length v_fracs \<and> length v_fracs = length a_ratios \<longrightarrow>
      MoriTanaka_init m (Multi fiber v_fracs a_ratios) \<noteq> Inl AssertionError)"
  by (auto simp: MoriTanaka_init_def Let_def
      split: option.splits sum.splits prod.splits
      simp: init_loop_error dest: finish_init_error)

theorem init_dimension_check_witness:
  "MoriTanaka_init \<lparr>stiffness66 = eye6, nu = 1 / 4\<rparr> (Multi [] [1 / 5] []) = Inl AssertionError
   \<and> MoriTanaka_init \<lparr>stiffness66 = eye6, nu = 1 / 4\<rparr> (Multi [] [] []) \<noteq> Inl AssertionError"
  using init_dimension_check [of "[]" "[1 / 5]" "[]" "\<lparr>stiffness66 = eye6, nu = 1 / 4\<rparr>"]
    init_dimension_check [of "[]" "[]" "[]" "\<lparr>stiffness66 = eye6, nu = 1 / 4\<rparr>"]
  by simp

section \<open>Orientation average\<close>

text \<open>
  Claim C5. For a full-form stiffness tensor \<open>C\<close>, a second-order orientation tensor
  \<open>N2\<close> and a full-form fourth-order orientation tensor \<open>N4\<close>, the entry \<open>ijkl\<close> of the
  orientation average is
  \<open>b1 N4_ijkl + b2 (N2_ij d_kl + d_ij N2_kl)
   + b3 (N2_ik d_jl + N2_il d_jk + d_ik N2_jl + d_il N2_jk) + b4 d_ij d_kl
   + b5 (d_ik d_jl + d_il d_jk)\<close>
  with \<open>b1 = C1111 + C2222 - 2 C1122 - 4 C1212\<close>, \<open>b2 = C1122 - C2233\<close>,
  \<open>b3 = C1212 + (C2233 - C2222) / 2\<close>, \<open>b4 = C2233\<close> and \<open>b5 = (C2222 - C2233) / 2\<close>.
  An orientation tensor is symmetric (section 6 of the specification), which is the
  hypothesis: the last term of the \<open>b3\<close> group is \<^verbatim>\<open>N2[k, j]\<close> in the source.
\<close>

theorem orientation_average_formula:
  assumes "symmetric33 N2"
  shows "get_orientation_average C N2 (N4_3333 N4) i j k l =
     (let b1 = C 0 0 0 0 + C 1 1 1 1 - 2 * C 0 0 1 1 - 4 * C 0 1 0 1;
          b2 = C 0 0 1 1 - C 1 1 2 2;
          b3 = C 0 1 0 1 + 1 / 2 * (C 1 1 2 2 - C 1 1 1 1);
          b4 = C 1 1 2 2;
          b5 = 1 / 2 * (C 1 1 1 1 - C 1 1 2 2)
      in b1 * N4 i j k l
         + b2 * (N2 i j * delta k l + delta i j * N2 k l)
         + b3 * (N2 i k * delta j l + N2 i l * delta j k + delta i k * N2 j l + delta i l * N2 j k)
         + b4 * (delta i j * delta k l)
         + b5 * (delta i k * delta j l + delta i l * delta j k))"
proof -
  have s: "N2 k j = N2 j k" using assms by (simp add: symmetric33_def)
  have d: "eye3 = delta" by (intro ext) (simp add: eye3_def delta_def)
  have c: "delta x y = delta y x" for x y
    by (auto simp: delta_def)
  show ?thesis
    by (simp add: get_orientation_average_def Let_def tadd_def tscale_def
        einsum_ij_kl_ijkl_def einsum_ik_lj_ijkl_def einsum_ik_lj_ijlk_def
        einsum_ik_lj_klij_def d s c)
qed

theorem orientation_average_formula_witness:
  "symmetric33 aligned_N2
   \<and> get_orientation_average (\<lambda>i j k l. 2 * delta i j * delta k l + 3 * aligned_N4 i j k l)
        aligned_N2 (N4_3333 aligned_N4) 0 0 1 1 = 2"
  using orientation_average_formula
    [of aligned_N2 "\<lambda>i j k l. 2 * delta i j * delta k l + 3 * aligned_N4 i j k l"
      aligned_N4 0 0 1 1]
  by (simp add: symmetric33_def aligned_N2_def aligned_N4_def delta_def Let_def)

lemma orientation_average_aligned:
  "get_orientation_average T aligned_N2 (N4_3333 aligned_N4) i j k l =
     (T 0 0 0 0 + T 1 1 1 1 - 2 * T 0 0 1 1 - 4 * T 0 1 0 1) * aligned_N4 i j k l
     + (T 0 0 1 1 - T 1 1 2 2) * (aligned_N2 i j * eye3 k l + eye3 i j * aligned_N2 k l)
     + (T 0 1 0 1 + (T 1 1 2 2 - T 1 1 1 1) / 2)
       * (aligned_N2 i k * eye3 l j + aligned_N2 i l * eye3 k j + eye3 k i * aligned_N2 j l
          + eye3 i l * aligned_N2 k j)
     + T 1 1 2 2 * (eye3 i j * eye3 k l)
     + (T 1 1 1 1 - T 1 1 2 2) / 2 * (eye3 i k * eye3 l j + eye3 i l * eye3 k j)"
  by (simp add: get_orientation_average_def Let_def tadd_def tscale_def
      einsum_ij_kl_ijkl_def einsum_ik_lj_ijkl_def einsum_ik_lj_ijlk_def
      einsum_ik_lj_klij_def)

text \<open>
  Claim C6. The orientation average of a stiffness tensor that is transversely isotropic
  about \<open>e1\<close>, taken with the perfectly aligned distribution \<open>N2 = diag(1, 0, 0)\<close> and
  \<open>N4\<close> the fourth power of \<open>e1\<close>, is the tensor itself.
\<close>

theorem aligned_average_identity:
  assumes "transversely_isotropic T"
  shows "get_orientation_average T aligned_N2 (N4_3333 aligned_N4) = T"
proof -
  from assms have L: "T i j k l = T j i k l" and R: "T i j k l = T i j l k"
    and M: "T i j k l = T k l i j" for i j k l
    by (simp_all add: transversely_isotropic_def)
  from assms have Z: "\<not> paired i j k l \<Longrightarrow> T i j k l = 0" for i j k l
    by (simp add: transversely_isotropic_def)
  from assms have c: "T 2 2 2 2 = T 1 1 1 1" "T 0 0 2 2 = T 0 0 1 1" "T 0 2 0 2 = T 0 1 0 1"
    "T 1 2 1 2 = (T 1 1 1 1 - T 1 1 2 2) / 2"
    by (simp_all add: transversely_isotropic_def)
  have n: "T 1 1 0 0 = T 0 0 1 1" "T 2 2 0 0 = T 0 0 1 1" "T 2 2 1 1 = T 1 1 2 2"
    using M [of 1 1 0 0] M [of 2 2 0 0] M [of 2 2 1 1] c by simp_all
  have s1: "T 1 0 1 0 = T 0 1 0 1" "T 0 1 1 0 = T 0 1 0 1" "T 1 0 0 1 = T 0 1 0 1"
    using L [of 1 0 1 0] R [of 0 1 1 0] L [of 1 0 0 1] by simp_all
  have s2: "T 2 0 2 0 = T 0 1 0 1" "T 0 2 2 0 = T 0 1 0 1" "T 2 0 0 2 = T 0 1 0 1"
    using L [of 2 0 2 0] R [of 0 2 2 0] L [of 2 0 0 2] c by simp_all
  have s3: "T 2 1 2 1 = (T 1 1 1 1 - T 1 1 2 2) / 2" "T 1 2 2 1 = (T 1 1 1 1 - T 1 1 2 2) / 2"
    "T 2 1 1 2 = (T 1 1 1 1 - T 1 1 2 2) / 2"
    using L [of 2 1 2 1] R [of 1 2 2 1] L [of 2 1 1 2] c by simp_all
  have "\<forall>i j k l. get_orientation_average T aligned_N2 (N4_3333 aligned_N4) i j k l = T i j k l"
    unfolding orientation_average_aligned
    by (simp add: forall_3 aligned_N2_def aligned_N4_def eye3_def Z paired_def c n s1 s2 s3)
      (simp add: field_simps)
  then show ?thesis by (intro ext) simp
qed


theorem aligned_average_identity_witness:
  "transversely_isotropic
     (\<lambda>i j k l. 2 * delta i j * delta k l + (delta i k * delta j l + delta i l * delta j k)
        + 3 * aligned_N4 i j k l)
   \<and> get_orientation_average
        (\<lambda>i j k l. 2 * delta i j * delta k l + (delta i k * delta j l + delta i l * delta j k)
           + 3 * aligned_N4 i j k l)
        aligned_N2 (N4_3333 aligned_N4)
      = (\<lambda>i j k l. 2 * delta i j * delta k l + (delta i k * delta j l + delta i l * delta j k)
           + 3 * aligned_N4 i j k l)"
proof -
  have "transversely_isotropic
     (\<lambda>i j k l. 2 * delta i j * delta k l + (delta i k * delta j l + delta i l * delta j k)
        + 3 * aligned_N4 i j k l)"
    unfolding transversely_isotropic_def
    by (simp add: forall_3 delta_def aligned_N4_def paired_def)
  then show ?thesis using aligned_average_identity by blast
qed

section \<open>Symmetry check\<close>

text \<open>
  Claim C9. \<^verbatim>\<open>is_symmetric\<close> takes the stored full-form effective stiffness \<open>T\<close>, computes
  the Frobenius norm of \<open>T - swap(T)\<close> for the swap of the first index pair, of the second
  index pair and of the two pairs, and prints for each whether it is below the fixed
  tolerance \<open>1e-3\<close>, with the residuum on failure. The model has no error result: the
  function returns its lines for every homogenizer, and does not change it.
\<close>

theorem is_symmetric_report:
  "is_symmetric h =
     (let T = effective_stiffness3333 h
      in (if residual T (swap_first_pair T) < 1 / 1000
          then [Text ''Left minor symmetry: passed'']
          else [Text ''Left minor symmetry: failed'', Residuum (residual T (swap_first_pair T))])
         @ (if residual T (swap_second_pair T) < 1 / 1000
            then [Text ''Right minor symmetry: passed'']
            else [Text ''Right minor symmetry: failed'',
                  Residuum (residual T (swap_second_pair T))])
         @ (if residual T (swap_pairs T) < 1 / 1000
            then [Text ''Major symmetry: passed'']
            else [Text ''Major symmetry: failed'', Residuum (residual T (swap_pairs T))])
         @ [Text [CHR 0x0A]])"
  by (simp add: is_symmetric_def Let_def check_lines_def linalg_norm_def residual_def tsub_def
      einsum_ijkl_jikl_def einsum_ijkl_ijlk_def einsum_ijkl_klij_def
      swap_first_pair_def swap_second_pair_def swap_pairs_def)

section \<open>Effective stiffness of a single inclusion type\<close>

text \<open>
  Claim C1. For a single inclusion type with matrix stiffness \<open>Cm\<close>, fiber stiffness
  \<open>Cf\<close>, volume fraction \<open>v\<close> and Eshelby tensor \<open>S\<close>, \<^verbatim>\<open>get_effective_stiffness\<close>
  returns \<open>Cm + v pol (v I + (1 - v) Ainv)\<^sup>-\<^sup>1\<close> with \<open>pol = Cf - Cm\<close> and
  \<open>Ainv = I + S (Cm\<^sup>-\<^sup>1 pol)\<close>, whenever the two inverses exist.
\<close>

theorem single_effective_stiffness:
  assumes "pol = msub Cf' Cm'"
    and "is_inverse Cm' Cm_inv"
    and "Ainv = madd eye6 (tensor_product S (tensor_product Cm_inv pol))"
    and "is_inverse (madd (smul v eye6) (smul (1 - v) Ainv)) X"
  shows "get_effective_stiffness Cm' (SingleData Cf' v a S)
    = Inr (madd Cm' (smul v (tensor_product pol X)))"
  using assms
  by (simp add: get_effective_stiffness_def Let_def linalg_inv_iff [symmetric])

theorem single_effective_stiffness_witness:
  "smul 2 eye6 = msub (smul 3 eye6) eye6
   \<and> is_inverse eye6 eye6
   \<and> smul 2 eye6
      = madd eye6 (tensor_product (smul (1 / 2) eye6) (tensor_product eye6 (smul 2 eye6)))
   \<and> is_inverse (madd (smul (1 / 2) eye6) (smul (1 - 1 / 2) (smul 2 eye6))) (smul (2 / 3) eye6)
   \<and> get_effective_stiffness eye6 (SingleData (smul 3 eye6) (1 / 2) 2 (smul (1 / 2) eye6))
      = Inr (madd eye6 (smul (1 / 2) (tensor_product (smul 2 eye6) (smul (2 / 3) eye6))))"
proof -
  have 1: "smul 2 eye6 = msub (smul 3 eye6) eye6"
    by (intro ext) (simp add: smul_def msub_def eye6_def)
  have 2: "is_inverse eye6 eye6" by (rule is_inverse_eye)
  have "tensor_product (smul (1 / 2) eye6) (tensor_product eye6 (smul 2 eye6)) = eye6"
    by (simp add: matrix_simps)
  then have 3: "smul 2 eye6
      = madd eye6 (tensor_product (smul (1 / 2) eye6) (tensor_product eye6 (smul 2 eye6)))"
    by (intro ext) (simp add: madd_def smul_def)
  have "madd (smul (1 / 2) eye6) (smul (1 - 1 / 2) (smul 2 eye6)) = smul (3 / 2) eye6"
    by (intro ext) (simp add: madd_def smul_def)
  then have 4: "is_inverse (madd (smul (1 / 2) eye6) (smul (1 - 1 / 2) (smul 2 eye6)))
      (smul (2 / 3) eye6)"
    using is_inverse_smul_eye [of "3 / 2"] by simp
  from single_effective_stiffness [OF 1 2 3 4] 1 2 3 4 show ?thesis by simp
qed

section \<open>Effective stiffness of several inclusion types\<close>

lemma foldl_plus: "foldl (+) a xs = a + sum_list (xs :: real list)"
  by (induction xs arbitrary: a) simp_all

lemma py_sum_eq: "py_sum xs = (\<Sum>\<alpha><length xs. xs ! \<alpha>)"
  by (simp add: py_sum_def foldl_plus sum_list_sum_nth atLeast0LessThan)

lemma init_loop_ok:
  assumes "cf \<noteq> 0"
    and "list_all2
          (\<lambda>(fib, v, a) A. \<exists>S. get_eshelby \<nu> a ''66'' = Inr (Ret66 S)
             \<and> is_inverse (madd eye6 (tensor_product S (tensor_product Ci (msub (stiffness66 fib) C)))) A)
          xs As"
  shows "init_loop \<nu> C Ci cf xs (As0, pols0, cs0)
    = Inr (As0 @ As, pols0 @ map (\<lambda>(fib, v, a). msub (stiffness66 fib) C) xs,
           cs0 @ map (\<lambda>(fib, v, a). v / cf) xs)"
  using assms(2)
proof (induction xs As arbitrary: As0 pols0 cs0 rule: list_all2_induct)
  case Nil
  then show ?case by simp
next
  case (Cons x xs A As)
  obtain fib v a where x: "x = (fib, v, a)" by (cases x)
  from Cons.hyps(1) obtain S where S: "get_eshelby \<nu> a ''66'' = Inr (Ret66 S)"
    and A: "linalg_inv (madd eye6 (tensor_product S (tensor_product Ci (msub (stiffness66 fib) C))))
              = Some A"
    unfolding x by (auto simp: linalg_inv_iff)
  show ?case
    unfolding x using S A assms(1) by (simp add: Let_def Cons.IH)
qed

lemma averages_eq:
  "averages (MultiData n As pols cs cf)
   = ((\<lambda>i j. \<Sum>\<alpha><n. cs ! \<alpha> * (As ! \<alpha>) i j),
      (\<lambda>i j. \<Sum>\<alpha><n. cs ! \<alpha> * tensor_product (pols ! \<alpha>) (As ! \<alpha>) i j))"
proof -
  define step where "step = (\<lambda>(A_ave, pol_A_ave) i.
              (madd A_ave (smul (cs ! i) (As ! i)),
               madd pol_A_ave (smul (cs ! i) (tensor_product (pols ! i) (As ! i)))))"
  have "foldl step (zeros66, zeros66) [0..<k]
   = ((\<lambda>i j. \<Sum>\<alpha><k. cs ! \<alpha> * (As ! \<alpha>) i j),
      (\<lambda>i j. \<Sum>\<alpha><k. cs ! \<alpha> * tensor_product (pols ! \<alpha>) (As ! \<alpha>) i j))" for k
  proof (induction k)
    case 0
    show ?case by (simp add: zeros66_def)
  next
    case (Suc k)
    then show ?case
      by (simp add: step_def madd_def smul_def)
  qed
  then show ?thesis
    by (simp add: averages_def step_def)
qed


text \<open>
  Claim C2. For \<open>N\<close> inclusion types given as lists of materials, volume fractions and
  aspect ratios, the constructor stores the effective stiffness
  \<open>Cm + c_f polA_ave (c_f A_ave + (1 - c_f) I)\<^sup>-\<^sup>1\<close>, which \<^verbatim>\<open>get_effective_stiffness\<close>
  returns, where for each type \<open>\<alpha>\<close>: \<open>pol_\<alpha> = Cf_\<alpha> - Cm\<close>,
  \<open>A_\<alpha> = (I + S_\<alpha> Cm\<^sup>-\<^sup>1 pol_\<alpha>)\<^sup>-\<^sup>1\<close> with \<open>S_\<alpha>\<close> the Eshelby tensor of the aspect ratio
  of the type, \<open>c_f\<close> is the sum of the volume fractions, \<open>c_\<alpha> = v_\<alpha> / c_f\<close>,
  \<open>A_ave = \<Sum> c_\<alpha> A_\<alpha>\<close> and \<open>polA_ave = \<Sum> c_\<alpha> (pol_\<alpha> A_\<alpha>)\<close>, whenever the inverses
  exist. The quotients \<open>v_\<alpha> / c_f\<close> need \<open>c_f \<noteq> 0\<close>.
\<close>

theorem multi_effective_stiffness:
  fixes pol S A :: "nat \<Rightarrow> mat66"
  assumes len: "length fiber = N" "length v_fracs = N" "length a_ratios = N"
    and cf: "cf = (\<Sum>\<alpha><N. v_fracs ! \<alpha>)" "cf \<noteq> 0"
    and Ci: "is_inverse (stiffness66 m) Cm_inv"
    and pol: "\<forall>\<alpha><N. pol \<alpha> = msub (stiffness66 (fiber ! \<alpha>)) (stiffness66 m)"
    and S: "\<forall>\<alpha><N. get_eshelby (nu m) (a_ratios ! \<alpha>) ''66'' = Inr (Ret66 (S \<alpha>))"
    and A: "\<forall>\<alpha><N. is_inverse
              (madd eye6 (tensor_product (S \<alpha>) (tensor_product Cm_inv (pol \<alpha>)))) (A \<alpha>)"
    and ave: "A_ave = (\<lambda>i j. \<Sum>\<alpha><N. v_fracs ! \<alpha> / cf * A \<alpha> i j)"
    and polA: "pol_A_ave
      = (\<lambda>i j. \<Sum>\<alpha><N. v_fracs ! \<alpha> / cf * tensor_product (pol \<alpha>) (A \<alpha>) i j)"
    and X: "is_inverse (madd (smul cf A_ave) (smul (1 - cf) eye6)) X"
  shows "\<exists>h. MoriTanaka_init m (Multi fiber v_fracs a_ratios) = Inr h
    \<and> effective_stiffness66 h
       = madd (stiffness66 m) (tensor_product (smul cf pol_A_ave) X)
    \<and> get_effective_stiffness (Cm h) (phases h) = Inr (effective_stiffness66 h)"
proof -
  let ?xs = "zip fiber (zip v_fracs a_ratios)"
  let ?As = "map A [0..<N]"
  let ?pols = "map (\<lambda>(fib, v, a). msub (stiffness66 fib) (stiffness66 m)) ?xs"
  let ?cs = "map (\<lambda>(fib, v :: real, a :: real). v / cf) ?xs"
  let ?ph = "MultiData N ?As ?pols ?cs cf"
  have sum: "py_sum v_fracs = cf" using len cf by (simp add: py_sum_eq)
  have inv: "linalg_inv (stiffness66 m) = Some Cm_inv" using Ci by (simp add: linalg_inv_iff)
  have "list_all2
          (\<lambda>(fib, v, a) A. \<exists>S. get_eshelby (nu m) a ''66'' = Inr (Ret66 S)
             \<and> is_inverse (madd eye6 (tensor_product S
                   (tensor_product Cm_inv (msub (stiffness66 fib) (stiffness66 m))))) A)
          ?xs ?As"
    unfolding list_all2_conv_all_nth using len pol S A by auto
  from init_loop_ok [OF cf(2) this, where ?As0.0 = "[]" and ?pols0.0 = "[]" and ?cs0.0 = "[]"]
  have loop: "init_loop (nu m) (stiffness66 m) Cm_inv cf ?xs ([], [], []) = Inr (?As, ?pols, ?cs)"
    by simp
  have a1: "(\<lambda>i j. \<Sum>\<alpha><N. ?cs ! \<alpha> * (?As ! \<alpha>) i j) = A_ave"
    unfolding ave using len by (intro ext sum.cong) simp_all
  have a2: "(\<lambda>i j. \<Sum>\<alpha><N. ?cs ! \<alpha> * tensor_product (?pols ! \<alpha>) (?As ! \<alpha>) i j) = pol_A_ave"
    unfolding polA using len pol by (intro ext sum.cong) simp_all
  have "averages ?ph = (A_ave, pol_A_ave)"
    unfolding averages_eq a1 a2 ..
  moreover have "linalg_inv (madd (smul cf A_ave) (smul (1 - cf) eye6)) = Some X"
    using X by (simp add: linalg_inv_iff)
  ultimately have eff: "get_effective_stiffness (stiffness66 m) ?ph
      = Inr (madd (stiffness66 m) (tensor_product (smul cf pol_A_ave) X))"
    by (simp add: get_effective_stiffness_def)
  show ?thesis
    using len sum inv loop eff
    by (simp add: MoriTanaka_init_def finish_init_def Let_def)
qed


theorem multi_effective_stiffness_witness:
  "(\<exists>h. MoriTanaka_init \<lparr>stiffness66 = eye6, nu = 1 / 4\<rparr>
         (Multi [\<lparr>stiffness66 = eye6, nu = 1 / 5\<rparr>, \<lparr>stiffness66 = eye6, nu = 1 / 5\<rparr>]
            [1 / 4, 1 / 4] [2, 3]) = Inr h
      \<and> effective_stiffness66 h = eye6)"
proof -
  let ?m = "\<lparr>stiffness66 = eye6, nu = 1 / 4 :: real\<rparr>"
  let ?f = "\<lparr>stiffness66 = eye6, nu = 1 / 5 :: real\<rparr>"
  let ?S = "\<lambda>\<alpha>. tensor2mandel (eshelby3333 (1 / 4) ([2, 3] ! \<alpha>))"
  have 1: "(1 / 2 :: real) = (\<Sum>\<alpha><2. [1 / 4, 1 / 4] ! \<alpha>)"
    by (simp add: numeral_2_eq_2)
  have 2: "\<forall>\<alpha><2. zeros66 = msub (stiffness66 ([?f, ?f] ! \<alpha>)) (stiffness66 ?m)"
    by (simp add: numeral_2_eq_2 All_less_Suc msub_self)
  have 3: "\<forall>\<alpha><2. get_eshelby (nu ?m) ([2, 3] ! \<alpha>) ''66'' = Inr (Ret66 (?S \<alpha>))"
    by (simp add: numeral_2_eq_2 All_less_Suc get_eshelby_ok powers_in_range_10)
  have 4: "\<forall>\<alpha><2. is_inverse
              (madd eye6 (tensor_product (?S \<alpha>) (tensor_product eye6 zeros66))) eye6"
    by (simp add: matrix_simps is_inverse_eye)
  have 5: "eye6 = (\<lambda>i j. \<Sum>\<alpha><2. [1 / 4, 1 / 4] ! \<alpha> / (1 / 2) * eye6 i j)"
    by (intro ext) (simp add: numeral_2_eq_2)
  have 6: "zeros66
      = (\<lambda>i j. \<Sum>\<alpha><2. [1 / 4, 1 / 4] ! \<alpha> / (1 / 2) * tensor_product zeros66 eye6 i j)"
    by (intro ext) (simp add: matrix_simps zeros66_def)
  have 7: "is_inverse (madd (smul (1 / 2) eye6) (smul (1 - 1 / 2) eye6)) eye6"
    by (simp add: matrix_simps is_inverse_eye)
  from multi_effective_stiffness
    [where fiber = "[?f, ?f]" and N = 2 and v_fracs = "[1 / 4, 1 / 4]" and a_ratios = "[2, 3]"
      and cf = "1 / 2" and m = ?m and Cm_inv = eye6 and pol = "\<lambda>\<alpha>. zeros66" and S = ?S
      and A = "\<lambda>\<alpha>. eye6" and A_ave = eye6 and pol_A_ave = zeros66 and X = eye6,
      OF _ _ _ 1 _ _ 2 3 4 5 6 7]
  show ?thesis by (auto simp: matrix_simps is_inverse_eye)
qed

section \<open>One inclusion type, given as a list or directly\<close>

text \<open>
  Claim C3, as stated, fails at the volume fraction 0: every matrix inverse that either
  mode needs exists, the single-inclusion mode returns the matrix stiffness, and the
  multi-inclusion mode divides \<open>v\<close> by the sum \<open>c_f = v = 0\<close> and raises
  \<^verbatim>\<open>ZeroDivisionError\<close>.
\<close>

theorem single_multi_differ_at_zero:
  "(\<exists>h. MoriTanaka_init \<lparr>stiffness66 = eye6, nu = 1 / 4\<rparr>
          (Single \<lparr>stiffness66 = eye6, nu = 1 / 5\<rparr> 0 2) = Inr h
        \<and> effective_stiffness66 h = eye6)
   \<and> MoriTanaka_init \<lparr>stiffness66 = eye6, nu = 1 / 4\<rparr>
        (Multi [\<lparr>stiffness66 = eye6, nu = 1 / 5\<rparr>] [0] [2]) = Inl ZeroDivisionError"
proof -
  have i: "linalg_inv eye6 = Some eye6" by (simp add: linalg_inv_iff is_inverse_eye)
  show ?thesis
    by (simp add: MoriTanaka_init_def finish_init_def get_effective_stiffness_def
        get_eshelby_ok powers_in_range_10 Let_def py_sum_def matrix_simps i)
qed

text \<open>
  Claim C3, amended. For a volume fraction \<open>v \<noteq> 0\<close> and an aspect ratio for which the
  Eshelby tensor is defined, when the inverses of \<open>Cm\<close>, of \<open>I + S Cm\<^sup>-\<^sup>1 pol\<close> and of
  \<open>v A + (1 - v) I\<close> exist, both constructions succeed and store the same effective
  stiffness, in reduced and in full form. In exact arithmetic the two are equal, hence
  within any tolerance.
\<close>

theorem single_multi_agree:
  assumes v: "v \<noteq> 0"
    and S: "get_eshelby (nu m) a ''66'' = Inr (Ret66 S)"
    and Ci: "is_inverse (stiffness66 m) Cm_inv"
    and pol: "pol = msub (stiffness66 f) (stiffness66 m)"
    and A: "is_inverse (madd eye6 (tensor_product S (tensor_product Cm_inv pol))) A"
    and Y: "is_inverse (madd (smul v A) (smul (1 - v) eye6)) Y"
  shows "\<exists>h1 h2. MoriTanaka_init m (Single f v a) = Inr h1
    \<and> MoriTanaka_init m (Multi [f] [v] [a]) = Inr h2
    \<and> effective_stiffness66 h1 = effective_stiffness66 h2
    \<and> effective_stiffness3333 h1 = effective_stiffness3333 h2"
proof -
  let ?Ainv = "madd eye6 (tensor_product S (tensor_product Cm_inv pol))"
  let ?W = "madd (smul v A) (smul (1 - v) eye6)"
  let ?C = "madd (stiffness66 m) (smul v (tensor_product pol (tensor_product A Y)))"
  have Ci': "linalg_inv (stiffness66 m) = Some Cm_inv" using Ci by (simp add: linalg_inv_iff)
  have A': "linalg_inv ?Ainv = Some A" using A by (simp add: linalg_inv_iff)
  have Y': "linalg_inv ?W = Some Y" using Y by (simp add: linalg_inv_iff)
  have "tensor_product ?W ?Ainv = madd (smul v eye6) (smul (1 - v) ?Ainv)"
    using A by (simp add: tp_madd_left tp_smul_left tp_eye_left is_inverse_def)
  moreover have "is_inverse (tensor_product ?W ?Ainv) (tensor_product A Y)"
    using Y A by (rule is_inverse_tp)
  ultimately have X': "linalg_inv (madd (smul v eye6) (smul (1 - v) ?Ainv)) = Some (tensor_product A Y)"
    by (simp add: linalg_inv_iff)
  have single: "get_effective_stiffness (stiffness66 m) (SingleData (stiffness66 f) v a S) = Inr ?C"
    using Ci' X' pol by (simp add: get_effective_stiffness_def Let_def)
  have ave: "averages (MultiData 1 [A] [pol] [v / v] v) = (A, tensor_product pol A)"
    using v by (simp add: averages_def matrix_simps)
  have multi: "get_effective_stiffness (stiffness66 m) (MultiData 1 [A] [pol] [v / v] v) = Inr ?C"
    using ave Y' by (simp add: get_effective_stiffness_def tp_smul_left tp_assoc)
  have loop: "init_loop (nu m) (stiffness66 m) Cm_inv v [(f, v, a)] ([], [], [])
      = Inr ([A], [pol], [v / v])"
    using S A' v pol by (simp add: Let_def)
  have "MoriTanaka_init m (Single f v a)
      = Inr \<lparr>matrix = m, Cm = stiffness66 m, phases = SingleData (stiffness66 f) v a S,
             effective_stiffness66 = ?C, effective_stiffness3333 = mandel2tensor ?C\<rparr>"
    using S single by (simp add: MoriTanaka_init_def finish_init_def)
  moreover have "MoriTanaka_init m (Multi [f] [v] [a])
      = Inr \<lparr>matrix = m, Cm = stiffness66 m, phases = MultiData 1 [A] [pol] [v / v] v,
             effective_stiffness66 = ?C, effective_stiffness3333 = mandel2tensor ?C\<rparr>"
    using Ci' loop multi by (simp add: MoriTanaka_init_def finish_init_def py_sum_def)
  ultimately show ?thesis by simp
qed

theorem single_multi_agree_witness:
  "\<exists>h1 h2. MoriTanaka_init \<lparr>stiffness66 = eye6, nu = 1 / 4\<rparr>
         (Single \<lparr>stiffness66 = eye6, nu = 1 / 5\<rparr> (1 / 5) 2) = Inr h1
    \<and> MoriTanaka_init \<lparr>stiffness66 = eye6, nu = 1 / 4\<rparr>
         (Multi [\<lparr>stiffness66 = eye6, nu = 1 / 5\<rparr>] [1 / 5] [2]) = Inr h2
    \<and> effective_stiffness66 h1 = effective_stiffness66 h2
    \<and> effective_stiffness3333 h1 = effective_stiffness3333 h2"
  by (rule single_multi_agree
      [where Cm_inv = eye6 and A = eye6 and Y = eye6 and pol = zeros66
        and S = "tensor2mandel (eshelby3333 (1 / 4) 2)"])
    (simp_all add: get_eshelby_ok powers_in_range_10 matrix_simps is_inverse_eye)

section \<open>Symmetry of the results\<close>

































end
